theory Spec2Isabelle
  imports Complex_Main
begin

section \<open>JavaScript values\<close>

text \<open>
  The node handles loosely typed JSON (\<^verbatim>\<open>any\<close> in the TypeScript source), so the
  embedding starts with a datatype of JavaScript values.  A number is an IEEE double; the
  code only compares numbers, takes \<^verbatim>\<open>Math.min\<close>/\<^verbatim>\<open>Math.max\<close>, tests
  \<^verbatim>\<open>Number.isNaN\<close> and counts attempts upwards from 1, so a number is modelled as
  \<open>NaN\<close>, an infinity, or an exact rational (no rounding ever happens in these operations;
  the sign of zero is not observable here).

  A string is a list of 8-bit characters, read as the code units below 256.
\<close>

datatype jsnum = NaN | NegInf | Fin rat | PosInf

datatype jsval =
    JUndefined
  | JNull
  | JBool bool
  | JNum jsnum
  | JStr string
  | JArr "jsval list"
  | JObj "(string \<times> jsval) list"

text \<open>\<^verbatim>\<open>a <= b\<close> on numbers: false as soon as one side is \<open>NaN\<close>.\<close>

fun js_le :: "jsnum \<Rightarrow> jsnum \<Rightarrow> bool" where
  "js_le NaN _ = False"
| "js_le _ NaN = False"
| "js_le NegInf _ = True"
| "js_le _ PosInf = True"
| "js_le (Fin a) (Fin b) = (a \<le> b)"
| "js_le PosInf _ = False"
| "js_le _ NegInf = False"

text \<open>\<^verbatim>\<open>Math.max\<close> and \<^verbatim>\<open>Math.min\<close>: \<open>NaN\<close> as soon as one argument is \<open>NaN\<close>.\<close>

definition Math_max :: "jsnum \<Rightarrow> jsnum \<Rightarrow> jsnum" where
  "Math_max a b = (if a = NaN \<or> b = NaN then NaN else if js_le a b then b else a)"

definition Math_min :: "jsnum \<Rightarrow> jsnum \<Rightarrow> jsnum" where
  "Math_min a b = (if a = NaN \<or> b = NaN then NaN else if js_le a b then a else b)"

text \<open>Truthiness, as \<^verbatim>\<open>!x\<close>, \<^verbatim>\<open>x || y\<close> and \<^verbatim>\<open>if (x)\<close> read it.\<close>

fun truthy :: "jsval \<Rightarrow> bool" where
  "truthy JUndefined = False"
| "truthy JNull = False"
| "truthy (JBool b) = b"
| "truthy (JNum n) = (n \<noteq> NaN \<and> n \<noteq> Fin 0)"
| "truthy (JStr s) = (s \<noteq> [])"
| "truthy (JArr _) = True"
| "truthy (JObj _) = True"

text \<open>\<^verbatim>\<open>a || b\<close> and \<^verbatim>\<open>a ?? b\<close> on values; \<^verbatim>\<open>a || b\<close> on strings.\<close>

definition js_or :: "jsval \<Rightarrow> jsval \<Rightarrow> jsval" where
  "js_or a b = (if truthy a then a else b)"

definition js_nullish :: "jsval \<Rightarrow> jsval \<Rightarrow> jsval" where
  "js_nullish a b = (if a = JUndefined \<or> a = JNull then b else a)"

definition str_or :: "string \<Rightarrow> string \<Rightarrow> string" where
  "str_or a b = (if a = [] then b else a)"

text \<open>\<^verbatim>\<open>typeof x === 'object'\<close> holds of objects, arrays and \<^verbatim>\<open>null\<close>.\<close>

fun typeof_object :: "jsval \<Rightarrow> bool" where
  "typeof_object JNull = True"
| "typeof_object (JArr _) = True"
| "typeof_object (JObj _) = True"
| "typeof_object _ = False"

text \<open>
  Property access \<^verbatim>\<open>x?.k\<close>.  On \<^verbatim>\<open>undefined\<close> and \<^verbatim>\<open>null\<close> the optional chain
  gives \<^verbatim>\<open>undefined\<close>; on an object the value stored under the key, \<^verbatim>\<open>undefined\<close>
  when there is none.  None of the keys the node reads is a built-in property of a
  string, number, boolean or array, so every other receiver gives \<^verbatim>\<open>undefined\<close>.
\<close>

fun getProp :: "jsval \<Rightarrow> string \<Rightarrow> jsval" where
  "getProp (JObj kvs) k = (case map_of kvs k of None \<Rightarrow> JUndefined | Some v \<Rightarrow> v)"
| "getProp _ k = JUndefined"

subsection \<open>Strings\<close>

text \<open>
  \<^verbatim>\<open>String.prototype.trim\<close> strips white space and line terminators from both ends:
  below 256 these are TAB, LF, VT, FF, CR, space and the no-break space.
  \<^verbatim>\<open>toLowerCase\<close> folds A-Z and the Latin-1 capitals.
\<close>

definition is_ws :: "char \<Rightarrow> bool" where
  "is_ws c = (c \<in> set [CHR 0x09, CHR 0x0A, CHR 0x0B, CHR 0x0C, CHR 0x0D, CHR 0x20, CHR 0xA0])"

definition trim :: "string \<Rightarrow> string" where
  "trim s = rev (dropWhile is_ws (rev (dropWhile is_ws s)))"

definition lower_char :: "char \<Rightarrow> char" where
  "lower_char c =
     (let n = (of_char c :: nat)
      in if (65 \<le> n \<and> n \<le> 90) \<or> (192 \<le> n \<and> n \<le> 222 \<and> n \<noteq> 215)
         then char_of (n + 32) else c)"

definition toLowerCase :: "string \<Rightarrow> string" where
  "toLowerCase s = map lower_char s"

section \<open>Task identifier, status classification, result unwrapping\<close>

text \<open>
  \<^verbatim>\<open>
  const extractTaskId = (resp: any): string | undefined => {
    if (!resp || typeof resp !== 'object') return undefined;
    return resp.task_id || resp.taskId || resp.id || resp.task?.id;
  };
  \<close>
\<close>

definition extractTaskId :: "jsval \<Rightarrow> jsval" where
  "extractTaskId resp =
     (if \<not> truthy resp \<or> \<not> typeof_object resp then JUndefined
      else js_or (js_or (js_or (getProp resp ''task_id'') (getProp resp ''taskId''))
                        (getProp resp ''id''))
                 (getProp (getProp resp ''task'') ''id''))"

text \<open>
  \<^verbatim>\<open>
  const normalizeStatus = (s: any): string =>
    (typeof s === 'string' ? s.trim().toLowerCase() : '');
  \<close>
\<close>

fun normalizeStatus :: "jsval \<Rightarrow> string" where
  "normalizeStatus (JStr s) = toLowerCase (trim s)"
| "normalizeStatus _ = []"

definition isTerminalSuccess :: "jsval \<Rightarrow> bool" where
  "isTerminalSuccess statusPayload =
     (let s = str_or (str_or (normalizeStatus (getProp statusPayload ''status''))
                             (normalizeStatus (getProp statusPayload ''state'')))
                     (normalizeStatus (getProp statusPayload ''task_status''))
      in if s \<in> set [''completed'', ''done'', ''success'', ''finished''] then True
         else
           (let hasResult =
                  (getProp statusPayload ''result'' \<noteq> JUndefined \<or>
                   getProp statusPayload ''data'' \<noteq> JUndefined \<or>
                   getProp statusPayload ''output'' \<noteq> JUndefined \<or>
                   getProp statusPayload ''response'' \<noteq> JUndefined);
                looksProcessing =
                  (s \<in> set [''queued'', ''pending'', ''processing'', ''running'', ''in_progress''])
            in hasResult \<and> \<not> looksProcessing))"

definition isTerminalFailure :: "jsval \<Rightarrow> bool" where
  "isTerminalFailure statusPayload =
     (let s = str_or (str_or (normalizeStatus (getProp statusPayload ''status''))
                             (normalizeStatus (getProp statusPayload ''state'')))
                     (normalizeStatus (getProp statusPayload ''task_status''))
      in s \<in> set [''failed'', ''error'', ''canceled'', ''cancelled''])"

text \<open>
  \<^verbatim>\<open>
  const unwrapFinalPayload = (statusPayload: any): any =>
    statusPayload?.result ?? statusPayload?.data ?? statusPayload?.output ??
    statusPayload?.response ?? statusPayload;
  \<close>
\<close>

definition unwrapFinalPayload :: "jsval \<Rightarrow> jsval" where
  "unwrapFinalPayload statusPayload =
     js_nullish (js_nullish (js_nullish (js_nullish (getProp statusPayload ''result'')
                                                    (getProp statusPayload ''data''))
                                        (getProp statusPayload ''output''))
                            (getProp statusPayload ''response''))
                statusPayload"

section \<open>Node parameters and the polling policy\<close>

text \<open>
  What \<^verbatim>\<open>this.getNodeParameter(name, i)\<close> returns for the item, one field per declared
  parameter, at the type the source asserts (\<^verbatim>\<open>as string\<close>, \<^verbatim>\<open>as number\<close>,
  \<^verbatim>\<open>as boolean\<close>).  \<open>p_task\<close> stays a string, since the \<^verbatim>\<open>switch\<close> has a
  \<^verbatim>\<open>default\<close> branch for an unknown task.
\<close>

record node_params =
  p_binaryProperty :: string
  p_task :: string
  p_model :: string
  p_summarizeTask :: string
  p_summarizeThinking :: bool
  p_summarizePrompt :: string
  p_pollIntervalMs :: jsnum
  p_maxPollAttempts :: jsnum
  p_pollIntervalMsSummarize :: jsnum
  p_maxPollAttemptsSummarize :: jsnum

text \<open>The \<^verbatim>\<open>default:\<close> entries of the four polling properties in the node description.\<close>

definition default_pollIntervalMs :: jsnum where
  "default_pollIntervalMs = Fin 500"

definition default_pollIntervalMsSummarize :: jsnum where
  "default_pollIntervalMsSummarize = Fin 20000"

definition default_maxPollAttempts :: jsnum where
  "default_maxPollAttempts = Fin 200"

definition default_maxPollAttemptsSummarize :: jsnum where
  "default_maxPollAttemptsSummarize = Fin 500"

text \<open>
  \<^verbatim>\<open>
  const legacy = typeof legacyRaw === 'number' ? legacyRaw : Number(legacyRaw);
  \<close>
  The built-in conversion \<^verbatim>\<open>Number\<close> is a parameter \<open>toNumber\<close> of the model.
\<close>

definition legacyNumber :: "(jsval \<Rightarrow> jsnum) \<Rightarrow> jsval \<Rightarrow> jsnum" where
  "legacyNumber toNumber legacyRaw =
     (case legacyRaw of JNum n \<Rightarrow> n | _ \<Rightarrow> toNumber legacyRaw)"

text \<open>
  \<open>nodeParams\<close> is \<^verbatim>\<open>this.getNode().parameters ?? {}\<close>, the parameters stored with the
  node: \<^verbatim>\<open>key in nodeParams\<close> is \<open>nodeParams key \<noteq> None\<close>, and then
  \<^verbatim>\<open>nodeParams[key]\<close> is the value stored.
  \<^verbatim>\<open>
  if (!('pollIntervalMsSummarize' in nodeParams) && 'pollIntervalMs' in nodeParams) {
    const legacyRaw = nodeParams['pollIntervalMs'];
    const legacy = ...;
    if (!Number.isNaN(legacy) && legacy !== 500 && legacy !== 1000) pollIntervalMs = legacy;
  }
  \<close>
  and the same for \<^verbatim>\<open>maxPollAttempts\<close> with 200 and 300.
\<close>

definition legacyInterval :: "(jsval \<Rightarrow> jsnum) \<Rightarrow> (string \<rightharpoonup> jsval) \<Rightarrow> jsnum \<Rightarrow> jsnum" where
  "legacyInterval toNumber nodeParams pollIntervalMs =
     (if nodeParams ''pollIntervalMsSummarize'' = None \<and> nodeParams ''pollIntervalMs'' \<noteq> None
      then (let legacy = legacyNumber toNumber (the (nodeParams ''pollIntervalMs''))
            in if legacy \<noteq> NaN \<and> legacy \<noteq> Fin 500 \<and> legacy \<noteq> Fin 1000
               then legacy else pollIntervalMs)
      else pollIntervalMs)"

definition legacyAttempts :: "(jsval \<Rightarrow> jsnum) \<Rightarrow> (string \<rightharpoonup> jsval) \<Rightarrow> jsnum \<Rightarrow> jsnum" where
  "legacyAttempts toNumber nodeParams maxPollAttempts =
     (if nodeParams ''maxPollAttemptsSummarize'' = None \<and> nodeParams ''maxPollAttempts'' \<noteq> None
      then (let legacy = legacyNumber toNumber (the (nodeParams ''maxPollAttempts''))
            in if legacy \<noteq> NaN \<and> legacy \<noteq> Fin 200 \<and> legacy \<noteq> Fin 300
               then legacy else maxPollAttempts)
      else maxPollAttempts)"

text \<open>
  The values of \<^verbatim>\<open>pollIntervalMs\<close> and \<^verbatim>\<open>maxPollAttempts\<close> just before the
  \<^verbatim>\<open>// clamp\<close> comment: the per-task parameters, with the backward-compatibility
  override for a summarize item.
\<close>

definition selectPolling ::
  "(jsval \<Rightarrow> jsnum) \<Rightarrow> node_params \<Rightarrow> (string \<rightharpoonup> jsval) \<Rightarrow> jsnum \<times> jsnum" where
  "selectPolling toNumber ps nodeParams =
     (if p_task ps = ''summarize''
      then (legacyInterval toNumber nodeParams (p_pollIntervalMsSummarize ps),
            legacyAttempts toNumber nodeParams (p_maxPollAttemptsSummarize ps))
      else (p_pollIntervalMs ps, p_maxPollAttempts ps))"

text \<open>
  \<^verbatim>\<open>
  pollIntervalMs = Math.min(900000, Math.max(500, pollIntervalMs));
  maxPollAttempts = Math.min(1000, Math.max(1, maxPollAttempts));
  \<close>
\<close>

definition pollingPolicy ::
  "(jsval \<Rightarrow> jsnum) \<Rightarrow> node_params \<Rightarrow> (string \<rightharpoonup> jsval) \<Rightarrow> jsnum \<times> jsnum" where
  "pollingPolicy toNumber ps nodeParams =
     (let (pollIntervalMs, maxPollAttempts) = selectPolling toNumber ps nodeParams
      in (Math_min (Fin 900000) (Math_max (Fin 500) pollIntervalMs),
          Math_min (Fin 1000) (Math_max (Fin 1) maxPollAttempts)))"

section \<open>Requests, errors and the poll loop\<close>

record binary_data =
  fileName :: "string option"
  mimeType :: "string option"

record query =
  qs_task :: string
  qs_prompt :: string
  qs_thinking :: bool

record form_data =
  file_name :: string
  file_type :: string
  file_bytes :: "nat list"
  form_model :: "string option"

text \<open>
  The two request descriptors handed to the transport: the \<^verbatim>\<open>POST\<close> that creates the
  task (url, query string, multipart body) and the \<^verbatim>\<open>GET\<close> of the status endpoint,
  whose url ends in the interpolated task identifier.
\<close>

datatype request =
    CreateReq string "query option" form_data
  | StatusReq string jsval

text \<open>What the item did to the outside world, in order.\<close>

datatype event = Sent request | Slept jsnum

text \<open>
  The interpolated tail of the failure message,
  \<^verbatim>\<open>statusPayload?.error || statusPayload?.message || JSON.stringify(statusPayload)\<close>:
  either a value of the payload or the serialisation of the whole payload.
\<close>

datatype detail = Field jsval | Serialized jsval

definition failureDetail :: "jsval \<Rightarrow> detail" where
  "failureDetail statusPayload =
     (if truthy (getProp statusPayload ''error'') then Field (getProp statusPayload ''error'')
      else if truthy (getProp statusPayload ''message'')
           then Field (getProp statusPayload ''message'')
           else Serialized statusPayload)"

text \<open>
  The errors an item can raise, each with the pieces its message is built from and the
  item index it is tagged with:
  \<^item> \<open>NoBinaryData\<close>: \<^verbatim>\<open>No binary data in property "..."\<close>;
  \<^item> \<open>SummarizeTaskMissing\<close>: \<^verbatim>\<open>Summarize: summarizeTask is missing\<close>;
  \<^item> \<open>UnknownTask\<close>: \<^verbatim>\<open>Unknown task: ...\<close>;
  \<^item> \<open>ApiError\<close>: a failure of the transport, wrapped by \<^verbatim>\<open>request\<close>;
  \<^item> \<open>TaskFailed\<close>: \<^verbatim>\<open>Task <id> failed: <detail>\<close>;
  \<^item> \<open>PollTimeout\<close>: \<^verbatim>\<open>Task <id> did not complete within polling limit (<n> attempts)\<close>.
\<close>

datatype node_error =
    NoBinaryData string nat
  | SummarizeTaskMissing nat
  | UnknownTask string nat
  | ApiError string nat
  | TaskFailed jsval detail nat
  | PollTimeout jsval jsnum nat

definition is_status_request :: "event \<Rightarrow> bool" where
  "is_status_request e = (case e of Sent (StatusReq _ _) \<Rightarrow> True | _ \<Rightarrow> False)"

definition status_requests :: "event list \<Rightarrow> nat" where
  "status_requests tr = length (filter is_status_request tr)"

text \<open>
  \<^verbatim>\<open>
  for (let attempt = 1; attempt <= maxPollAttempts; attempt++) {
    statusPayload = await request({ method: 'GET', url: statusUrl, json: true }, i);
    if (isTerminalFailure(statusPayload)) throw new NodeOperationError(...);
    if (isTerminalSuccess(statusPayload)) {
      finalResponse = unwrapFinalPayload(statusPayload); completed = true; break;
    }
    await sleep(pollIntervalMs);
  }
  if (!completed) throw new NodeOperationError(...);
  \<close>
  \<open>statusResp attempt\<close> is what the transport answers to the status request of that
  attempt: a payload, or a failure that \<^verbatim>\<open>request\<close> wraps and rethrows.  The loop
  carries the trace of events so far and returns it with the outcome.  The loop condition
  compares with an arbitrary number, so the function is partial: \<open>None\<close> stands for a loop
  that never ends.
\<close>

partial_function (option) poll_loop ::
  "(nat \<Rightarrow> string + jsval) \<Rightarrow> string \<Rightarrow> jsval \<Rightarrow> nat \<Rightarrow> jsnum \<Rightarrow> jsnum \<Rightarrow> nat \<Rightarrow> event list
     \<Rightarrow> ((node_error + jsval) \<times> event list) option" where
  "poll_loop statusResp statusUrl taskId i pollIntervalMs maxPollAttempts attempt tr =
     (if js_le (Fin (of_nat attempt)) maxPollAttempts
      then (case statusResp attempt of
              Inl err \<Rightarrow> Some (Inl (ApiError err i), tr @ [Sent (StatusReq statusUrl taskId)])
            | Inr statusPayload \<Rightarrow>
                if isTerminalFailure statusPayload
                then Some (Inl (TaskFailed taskId (failureDetail statusPayload) i),
                           tr @ [Sent (StatusReq statusUrl taskId)])
                else if isTerminalSuccess statusPayload
                then Some (Inr (unwrapFinalPayload statusPayload),
                           tr @ [Sent (StatusReq statusUrl taskId)])
                else poll_loop statusResp statusUrl taskId i pollIntervalMs maxPollAttempts
                       (attempt + 1)
                       (tr @ [Sent (StatusReq statusUrl taskId), Slept pollIntervalMs]))
      else Some (Inl (PollTimeout taskId maxPollAttempts i), tr))"

declare poll_loop.simps [code]

section \<open>One item, from parameters to output record\<close>

text \<open>
  The summarize parameters are read only for a summarize item, and the prompt only under
  the sub-task \<^verbatim>\<open>user_prompt\<close>; \<^verbatim>\<open>summarizeTask\<close> stays \<^verbatim>\<open>undefined\<close> (\<open>None\<close>)
  otherwise.
\<close>

definition summarizeInputs :: "node_params \<Rightarrow> string option \<times> bool \<times> string" where
  "summarizeInputs ps =
     (if p_task ps = ''summarize''
      then (Some (p_summarizeTask ps), p_summarizeThinking ps,
            if p_summarizeTask ps = ''user_prompt'' then str_or (p_summarizePrompt ps) [] else [])
      else (None, False, []))"

text \<open>The \<^verbatim>\<open>switch (task)\<close>: the endpoint and, for summarize, the query string.\<close>

definition endpointFor ::
  "string \<Rightarrow> string \<Rightarrow> string option \<Rightarrow> string \<Rightarrow> bool \<Rightarrow> nat
     \<Rightarrow> node_error + (string \<times> query option)" where
  "endpointFor baseUrl task summarizeTask summarizePromptRaw summarizeThinking i =
     (if task = ''transcribe'' then Inr (baseUrl @ ''/api/v1/transcribe/do_transcribe'', None)
      else if task = ''diarize'' then Inr (baseUrl @ ''/api/v1/diarization/do_diarize'', None)
      else if task = ''sentiment''
      then Inr (baseUrl @ ''/api/v1/sentiment_analysis/analyze_file'', None)
      else if task = ''summarize''
      then (case summarizeTask of
              None \<Rightarrow> Inl (SummarizeTaskMissing i)
            | Some st \<Rightarrow>
                if st = [] then Inl (SummarizeTaskMissing i)
                else
                  (let promptToSend =
                         (if st = ''meeting_summary'' then ''*''
                          else str_or (trim (str_or summarizePromptRaw [])) ''*'')
                   in Inr (baseUrl @ ''/api/v1/ai_service/summarize_file'',
                           Some \<lparr>qs_task = st, qs_prompt = promptToSend,
                                 qs_thinking = summarizeThinking\<rparr>)))
      else Inl (UnknownTask task i))"

text \<open>
  \<^verbatim>\<open>
  const fileName = binaryData.fileName || 'audio';
  const mimeType = binaryData.mimeType || 'audio/mpeg';
  form.append('file', new Blob([u8], { type: mimeType }), fileName);
  if (model) form.append('model', model);
  \<close>
\<close>

definition opt_or :: "string option \<Rightarrow> string \<Rightarrow> string" where
  "opt_or a b = (case a of None \<Rightarrow> b | Some s \<Rightarrow> str_or s b)"

definition buildForm :: "binary_data \<Rightarrow> nat list \<Rightarrow> string option \<Rightarrow> form_data" where
  "buildForm binaryData audioBuffer model =
     \<lparr>file_name = opt_or (fileName binaryData) ''audio'',
      file_type = opt_or (mimeType binaryData) ''audio/mpeg'',
      file_bytes = audioBuffer,
      form_model = (case model of None \<Rightarrow> None | Some m \<Rightarrow> if m = [] then None else Some m)\<rparr>"

text \<open>The output record; a field the code does not set is \<open>None\<close>.\<close>

record output_json =
  o_task :: string
  source_file :: "string option"
  model_used :: "string option"
  transcription :: "jsval option"
  diarization :: "jsval option"
  sentiment :: "jsval option"
  summary :: "jsval option"

record output_item =
  json :: output_json
  binary :: "string \<rightharpoonup> binary_data"
  pairedItem :: nat

definition normalizeOutput ::
  "string \<Rightarrow> string option \<Rightarrow> binary_data \<Rightarrow> jsval \<Rightarrow> output_json" where
  "normalizeOutput task model binaryData finalResponse =
     (let result = \<lparr>o_task = task, source_file = fileName binaryData, model_used = None,
                     transcription = None, diarization = None, sentiment = None,
                     summary = None\<rparr>;
          result = (if task = ''transcribe'' \<and> model \<noteq> None \<and> model \<noteq> Some []
                    then result\<lparr>model_used := model\<rparr> else result)
      in if task = ''transcribe''
         then result\<lparr>transcription :=
                Some (case finalResponse of
                        JStr s \<Rightarrow> JStr (trim s)
                      | _ \<Rightarrow> js_or (js_or (js_or (getProp finalResponse ''text'')
                                                (getProp finalResponse ''transcription''))
                                         (getProp (getProp finalResponse ''data'') ''text''))
                                  (JStr []))\<rparr>
         else if task = ''diarize'' then result\<lparr>diarization := Some finalResponse\<rparr>
         else if task = ''sentiment'' then result\<lparr>sentiment := Some finalResponse\<rparr>
         else if task = ''summarize''
         then result\<lparr>summary :=
                Some (case finalResponse of
                        JStr s \<Rightarrow> JStr s
                      | _ \<Rightarrow> js_or (js_or (js_or (getProp finalResponse ''summary'')
                                                (getProp finalResponse ''result''))
                                         (getProp finalResponse ''text''))
                                  finalResponse)\<rparr>
         else result)"

text \<open>
  The body of the \<^verbatim>\<open>try\<close> block for item \<open>i\<close>, in the order of the source: parameters,
  binary data, polling policy, endpoint, form, create request, polling when the create
  response carries a task identifier, output record.  \<open>itemBinary\<close> is
  \<^verbatim>\<open>items[i].binary\<close>, \<open>createResp\<close> the transport's answer to the create request and
  \<open>statusResp\<close> its answers to the status requests.  The result is the outcome and the
  trace of requests and sleeps.
\<close>

definition process_item ::
  "(jsval \<Rightarrow> jsnum) \<Rightarrow> string \<Rightarrow> node_params \<Rightarrow> (string \<rightharpoonup> jsval) \<Rightarrow> (string \<rightharpoonup> binary_data)
     \<Rightarrow> nat list \<Rightarrow> (string + jsval) \<Rightarrow> (nat \<Rightarrow> string + jsval) \<Rightarrow> nat
     \<Rightarrow> ((node_error + output_item) \<times> event list) option" where
  "process_item toNumber baseUrl ps nodeParams itemBinary audioBuffer createResp statusResp i =
     (let binaryProperty = p_binaryProperty ps;
          task = p_task ps;
          model = (if task = ''transcribe'' then Some (p_model ps) else None)
      in case itemBinary binaryProperty of
           None \<Rightarrow> Some (Inl (NoBinaryData binaryProperty i), [])
         | Some binaryData \<Rightarrow>
             (let (summarizeTask, summarizeThinking, summarizePromptRaw) = summarizeInputs ps;
                  (pollIntervalMs, maxPollAttempts) = pollingPolicy toNumber ps nodeParams
              in case endpointFor baseUrl task summarizeTask summarizePromptRaw
                        summarizeThinking i of
                   Inl err \<Rightarrow> Some (Inl err, [])
                 | Inr (url, qs) \<Rightarrow>
                     (let form = buildForm binaryData audioBuffer model;
                          tr = [Sent (CreateReq url qs form)]
                      in case createResp of
                           Inl err \<Rightarrow> Some (Inl (ApiError err i), tr)
                         | Inr resp \<Rightarrow>
                             (let taskId = extractTaskId resp
                              in if truthy taskId
                                 then (case poll_loop statusResp
                                              (baseUrl @ ''/api/v1/transcribe/task_status/'')
                                              taskId i pollIntervalMs maxPollAttempts 1 tr of
                                         None \<Rightarrow> None
                                       | Some (Inl err, tr') \<Rightarrow> Some (Inl err, tr')
                                       | Some (Inr finalResponse, tr') \<Rightarrow>
                                           Some (Inr \<lparr>json = normalizeOutput task model
                                                               binaryData finalResponse,
                                                      binary = itemBinary, pairedItem = i\<rparr>,
                                                 tr'))
                                 else Some (Inr \<lparr>json = normalizeOutput task model binaryData
                                                           resp,
                                                  binary = itemBinary, pairedItem = i\<rparr>,
                                            tr)))))"

section \<open>Notions of the specification\<close>

text \<open>
  The specification speaks of the status a payload carries: the first of the fields
  status, state, task_status whose trimmed, case-folded string is not empty.  A field is
  present when reading it does not give \<^verbatim>\<open>undefined\<close>, which is the test
  \<^verbatim>\<open>!== undefined\<close> of the source.
\<close>

definition status_fields :: "string list" where
  "status_fields = [''status'', ''state'', ''task_status'']"

definition carried_status :: "jsval \<Rightarrow> string" where
  "carried_status p =
     (case find (\<lambda>s. s \<noteq> []) (map (\<lambda>f. normalizeStatus (getProp p f)) status_fields) of
        None \<Rightarrow> [] | Some s \<Rightarrow> s)"

definition has_result_field :: "jsval \<Rightarrow> bool" where
  "has_result_field p =
     (\<exists>k \<in> set [''result'', ''data'', ''output'', ''response'']. getProp p k \<noteq> JUndefined)"

definition success_words :: "string set" where
  "success_words = {''completed'', ''done'', ''success'', ''finished''}"

definition processing_words :: "string set" where
  "processing_words = {''queued'', ''pending'', ''processing'', ''running'', ''in_progress''}"

definition failure_words :: "string set" where
  "failure_words = {''failed'', ''error'', ''canceled'', ''cancelled''}"

text \<open>
  A status field is blank when it holds no string, or a string that is empty once trimmed
  and case-folded.  \<open>without_field f p\<close> is the payload \<open>p\<close> with the field \<open>f\<close> absent.
\<close>

definition blank_status :: "jsval \<Rightarrow> bool" where
  "blank_status v = (case v of JStr s \<Rightarrow> toLowerCase (trim s) = [] | _ \<Rightarrow> True)"

definition without_field :: "string \<Rightarrow> jsval \<Rightarrow> jsval" where
  "without_field f p =
     (case p of JObj kvs \<Rightarrow> JObj (filter (\<lambda>kv. fst kv \<noteq> f) kvs) | _ \<Rightarrow> p)"

text \<open>
  A poll is unsuccessful when the transport answers with a payload that is neither a
  terminal failure nor a terminal success; the loop then sleeps and tries again.
  \<open>poll_round\<close> is the trace of one such round.
\<close>

definition still_running :: "string + jsval \<Rightarrow> bool" where
  "still_running r =
     (case r of Inl _ \<Rightarrow> False
      | Inr p \<Rightarrow> \<not> isTerminalFailure p \<and> \<not> isTerminalSuccess p)"

definition poll_round :: "string \<Rightarrow> jsval \<Rightarrow> jsnum \<Rightarrow> event list" where
  "poll_round statusUrl taskId pollIntervalMs =
     [Sent (StatusReq statusUrl taskId), Slept pollIntervalMs]"

text \<open>
  The candidates of the identifier extraction and of the result unwrapping, in their
  order of precedence, and the first value of a list that passes a test (a default when
  none does).  A value is present when it is not \<^verbatim>\<open>undefined\<close>, and nullish when it is
  \<^verbatim>\<open>undefined\<close> or \<^verbatim>\<open>null\<close>.
\<close>

definition is_object :: "jsval \<Rightarrow> bool" where
  "is_object v = (case v of JObj _ \<Rightarrow> True | _ \<Rightarrow> False)"

definition id_candidates :: "jsval \<Rightarrow> jsval list" where
  "id_candidates resp =
     [getProp resp ''task_id'', getProp resp ''taskId'', getProp resp ''id'',
      getProp (getProp resp ''task'') ''id'']"

definition result_candidates :: "jsval \<Rightarrow> jsval list" where
  "result_candidates p = map (getProp p) [''result'', ''data'', ''output'', ''response'']"

definition present :: "jsval \<Rightarrow> bool" where
  "present v = (v \<noteq> JUndefined)"

definition first_such :: "(jsval \<Rightarrow> bool) \<Rightarrow> jsval list \<Rightarrow> jsval \<Rightarrow> jsval" where
  "first_such P vs dflt = (case find P vs of None \<Rightarrow> dflt | Some v \<Rightarrow> v)"

definition nullish :: "jsval \<Rightarrow> bool" where
  "nullish v = (v = JUndefined \<or> v = JNull)"

text \<open>
  The per-task polling parameters configured for an item, membership of a closed range,
  and clamping to the nearest bound: a value below the range goes to the lower bound, one
  above it to the upper bound, one inside stays.
\<close>

definition configured_interval :: "node_params \<Rightarrow> jsnum" where
  "configured_interval ps =
     (if p_task ps = ''summarize'' then p_pollIntervalMsSummarize ps else p_pollIntervalMs ps)"

definition configured_attempts :: "node_params \<Rightarrow> jsnum" where
  "configured_attempts ps =
     (if p_task ps = ''summarize'' then p_maxPollAttemptsSummarize ps else p_maxPollAttempts ps)"

definition in_range :: "rat \<Rightarrow> rat \<Rightarrow> jsnum \<Rightarrow> bool" where
  "in_range lo hi v = (js_le (Fin lo) v \<and> js_le v (Fin hi))"

definition nearest_bound :: "rat \<Rightarrow> rat \<Rightarrow> jsnum \<Rightarrow> jsnum" where
  "nearest_bound lo hi v =
     (if js_le v (Fin lo) then Fin lo else if js_le (Fin hi) v then Fin hi else v)"

text \<open>
  What a trace says about the submission: the create request it starts with, the prompt
  in its query string and the file name of the uploaded part.
\<close>

definition submitted :: "event list \<Rightarrow> (string \<times> query option \<times> form_data) option" where
  "submitted tr =
     (case tr of Sent (CreateReq url qs form) # _ \<Rightarrow> Some (url, qs, form) | _ \<Rightarrow> None)"

definition sent_prompt :: "event list \<Rightarrow> string option" where
  "sent_prompt tr =
     (case submitted tr of Some (_, Some q, _) \<Rightarrow> Some (qs_prompt q) | _ \<Rightarrow> None)"

definition uploaded_name :: "event list \<Rightarrow> string option" where
  "uploaded_name tr =
     (case submitted tr of Some (_, _, form) \<Rightarrow> Some (file_name form) | None \<Rightarrow> None)"

text \<open>
  Sample inputs for concrete runs: a binary attachment without a file name, and the
  parameters of an item for a given task.
\<close>

definition no_filename :: binary_data where
  "no_filename = \<lparr>fileName = None, mimeType = Some ''audio/wav''\<rparr>"

definition example_params :: "string \<Rightarrow> node_params" where
  "example_params task =
     \<lparr>p_binaryProperty = ''data'', p_task = task, p_model = ''palatine_small'',
      p_summarizeTask = ''user_prompt'', p_summarizeThinking = False,
      p_summarizePrompt = ''  '', p_pollIntervalMs = Fin 500, p_maxPollAttempts = Fin 200,
      p_pollIntervalMsSummarize = Fin 20000, p_maxPollAttemptsSummarize = Fin 500\<rparr>"

text \<open>
  The number of polls a bound allows: the attempts 1, 2, ... that are \<^verbatim>\<open><=\<close> the bound,
  that is the bound rounded down (none for a bound below 1, for \<open>NaN\<close> and for
  \<open>-Infinity\<close>).
\<close>

definition max_polls :: "jsnum \<Rightarrow> nat" where
  "max_polls m = (case m of Fin q \<Rightarrow> nat \<lfloor>q\<rfloor> | _ \<Rightarrow> 0)"

text \<open>
  How a classifier decides success from the status word \<open>s\<close> it reads.
\<close>

definition decides_success :: "string \<Rightarrow> jsval \<Rightarrow> bool" where
  "decides_success s p =
     (s \<in> success_words \<or> (has_result_field p \<and> s \<notin> processing_words))"

text \<open>
  The prompt as the specification words it: the wildcard for the sub-task
  \<^verbatim>\<open>meeting_summary\<close>, otherwise the user's prompt trimmed, the wildcard again when that
  is empty.  An item submits when its task is one of the four and, for summarize, the
  sub-task is not empty.
\<close>

definition claimed_prompt :: "string \<Rightarrow> string \<Rightarrow> string" where
  "claimed_prompt subtask prompt =
     (if subtask = ''meeting_summary'' then ''*''
      else if trim prompt = [] then ''*'' else trim prompt)"

definition submits :: "node_params \<Rightarrow> bool" where
  "submits ps =
     (p_task ps \<in> {''transcribe'', ''diarize'', ''sentiment''} \<or>
      (p_task ps = ''summarize'' \<and> p_summarizeTask ps \<noteq> []))"

section \<open>Status classification\<close>

lemma carried_status_chain:
  "carried_status p =
     str_or (str_or (normalizeStatus (getProp p ''status''))
                    (normalizeStatus (getProp p ''state'')))
            (normalizeStatus (getProp p ''task_status''))"
  by (simp add: carried_status_def status_fields_def str_or_def)

lemma isTerminalSuccess_carried:
  "isTerminalSuccess p \<longleftrightarrow>
     carried_status p \<in> success_words \<or>
     (has_result_field p \<and> carried_status p \<notin> processing_words)"
  unfolding carried_status_chain isTerminalSuccess_def Let_def has_result_field_def
    success_words_def processing_words_def
  by simp

lemma isTerminalFailure_carried:
  "isTerminalFailure p \<longleftrightarrow> carried_status p \<in> failure_words"
  unfolding carried_status_chain isTerminalFailure_def Let_def failure_words_def
  by simp

lemma words_disjoint: "success_words \<inter> processing_words = {}"
  by (simp add: success_words_def processing_words_def)

text \<open>
  C1. \<open>isTerminalSuccess\<close> is true exactly when the carried status is one of completed,
  done, success, finished, or a result field (result, data, output, response) is present
  and the carried status is not one of queued, pending, processing, running, in_progress.
  A terminal-success word is recognised under each of the three field names (the fields
  before it being absent or empty), and a processing status gives false whatever result
  fields are present.
\<close>

theorem isTerminalSuccess_exact:
  "(isTerminalSuccess p \<longleftrightarrow>
      carried_status p \<in> success_words \<or>
      (has_result_field p \<and> carried_status p \<notin> processing_words))
   \<and> (normalizeStatus (getProp p ''status'') \<in> success_words \<longrightarrow> isTerminalSuccess p)
   \<and> (normalizeStatus (getProp p ''status'') = [] \<and>
        normalizeStatus (getProp p ''state'') \<in> success_words \<longrightarrow> isTerminalSuccess p)
   \<and> (normalizeStatus (getProp p ''status'') = [] \<and>
        normalizeStatus (getProp p ''state'') = [] \<and>
        normalizeStatus (getProp p ''task_status'') \<in> success_words \<longrightarrow> isTerminalSuccess p)
   \<and> (carried_status p \<in> processing_words \<longrightarrow> \<not> isTerminalSuccess p)"
proof -
  have not_empty: "[] \<notin> success_words"
    by (simp add: success_words_def)
  have a: "normalizeStatus (getProp p ''status'') \<in> success_words \<Longrightarrow>
           carried_status p \<in> success_words"
    using not_empty by (auto simp: carried_status_chain str_or_def)
  have b: "normalizeStatus (getProp p ''status'') = [] \<Longrightarrow>
           normalizeStatus (getProp p ''state'') \<in> success_words \<Longrightarrow>
           carried_status p \<in> success_words"
    using not_empty by (auto simp: carried_status_chain str_or_def)
  have c: "normalizeStatus (getProp p ''status'') = [] \<Longrightarrow>
           normalizeStatus (getProp p ''state'') = [] \<Longrightarrow>
           normalizeStatus (getProp p ''task_status'') \<in> success_words \<Longrightarrow>
           carried_status p \<in> success_words"
    by (simp add: carried_status_chain str_or_def)
  have d: "carried_status p \<in> processing_words \<Longrightarrow> carried_status p \<notin> success_words"
    using words_disjoint by blast
  show ?thesis
    using a b c d isTerminalSuccess_carried [of p] by blast
qed

theorem isTerminalSuccess_exact_witness:
  "isTerminalSuccess (JObj [(''status'', JStr '' Completed'')])
   \<and> isTerminalSuccess (JObj [(''state'', JStr ''DONE'')])
   \<and> isTerminalSuccess (JObj [(''task_status'', JStr ''success'')])
   \<and> \<not> isTerminalSuccess (JObj [(''status'', JStr ''Processing''), (''result'', JStr ''r'')])
   \<and> isTerminalSuccess (JObj [(''data'', JNull)])"
proof -
  let ?p1 = "JObj [(''status'', JStr '' Completed'')]"
  let ?p2 = "JObj [(''state'', JStr ''DONE'')]"
  let ?p3 = "JObj [(''task_status'', JStr ''success'')]"
  let ?p4 = "JObj [(''status'', JStr ''Processing''), (''result'', JStr ''r'')]"
  let ?p5 = "JObj [(''data'', JNull)]"
  have h1: "normalizeStatus (getProp ?p1 ''status'') \<in> success_words"
    unfolding success_words_def by code_simp
  have h2: "normalizeStatus (getProp ?p2 ''status'') = [] \<and>
            normalizeStatus (getProp ?p2 ''state'') \<in> success_words"
    unfolding success_words_def by code_simp
  have h3: "normalizeStatus (getProp ?p3 ''status'') = [] \<and>
            normalizeStatus (getProp ?p3 ''state'') = [] \<and>
            normalizeStatus (getProp ?p3 ''task_status'') \<in> success_words"
    unfolding success_words_def by code_simp
  have h4: "carried_status ?p4 \<in> processing_words"
    unfolding processing_words_def by code_simp
  have h5: "carried_status ?p5 \<in> success_words \<or>
            (has_result_field ?p5 \<and> carried_status ?p5 \<notin> processing_words)"
    unfolding processing_words_def success_words_def has_result_field_def by code_simp
  note c2 = isTerminalSuccess_exact [THEN conjunct2]
  note c3 = c2 [THEN conjunct2]
  note c4 = c3 [THEN conjunct2]
  note c5 = c4 [THEN conjunct2]
  have r1: "isTerminalSuccess ?p1"
    by (rule c2 [THEN conjunct1, THEN mp, OF h1])
  have r2: "isTerminalSuccess ?p2"
    by (rule c3 [THEN conjunct1, THEN mp, OF h2])
  have r3: "isTerminalSuccess ?p3"
    by (rule c4 [THEN conjunct1, THEN mp, OF h3])
  have r4: "\<not> isTerminalSuccess ?p4"
    by (rule c5 [THEN mp, OF h4])
  have r5: "isTerminalSuccess ?p5"
    by (rule isTerminalSuccess_exact [THEN conjunct1, THEN iffD2, OF h5])
  from r1 r2 r3 r4 r5 show ?thesis
    by (intro conjI)
qed

lemma map_of_without:
  "map_of (filter (\<lambda>kv. fst kv \<noteq> f) kvs) k = (if k = f then None else map_of kvs k)"
  by (induction kvs) auto

lemma getProp_without_field:
  "getProp (without_field f p) k = (if k = f then JUndefined else getProp p k)"
  by (cases p) (simp_all add: without_field_def map_of_without)

lemma blank_status_normalize: "blank_status v \<longleftrightarrow> normalizeStatus v = []"
  by (cases v) (simp_all add: blank_status_def)

lemma carried_status_without_field:
  assumes "f \<in> set status_fields" and "normalizeStatus (getProp p f) = []"
  shows "carried_status (without_field f p) = carried_status p"
proof -
  from assms(1) consider "f = ''status''" | "f = ''state''" | "f = ''task_status''"
    by (auto simp: status_fields_def)
  then show ?thesis
  proof cases
    case 1
    with assms(2) show ?thesis
      by (simp add: carried_status_chain getProp_without_field str_or_def)
  next
    case 2
    with assms(2) show ?thesis
      by (simp add: carried_status_chain getProp_without_field str_or_def)
  next
    case 3
    with assms(2) show ?thesis
      by (simp add: carried_status_chain getProp_without_field str_or_def)
  qed
qed

lemma has_result_field_without_field:
  assumes "f \<in> set status_fields"
  shows "has_result_field (without_field f p) = has_result_field p"
proof -
  from assms have "f \<noteq> ''result''" "f \<noteq> ''data''" "f \<noteq> ''output''" "f \<noteq> ''response''"
    by (auto simp: status_fields_def)
  then show ?thesis
    by (simp add: has_result_field_def getProp_without_field)
qed

lemma carried_status_first:
  "\<not> blank_status (getProp p ''status'') \<Longrightarrow>
     carried_status p = normalizeStatus (getProp p ''status'')"
  "blank_status (getProp p ''status'') \<Longrightarrow> \<not> blank_status (getProp p ''state'') \<Longrightarrow>
     carried_status p = normalizeStatus (getProp p ''state'')"
  "blank_status (getProp p ''status'') \<Longrightarrow> blank_status (getProp p ''state'') \<Longrightarrow>
     carried_status p = normalizeStatus (getProp p ''task_status'')"
  by (simp_all add: carried_status_chain str_or_def blank_status_normalize)

text \<open>
  C9. In both classifiers a status field that is blank (present with a non-string value,
  or with a string that trims to the empty string) counts exactly as an absent one, and
  the next field in the order status, state, task_status decides: a non-blank status
  decides alone; under a blank status a non-blank state decides; under a blank status and
  a blank state task_status decides.  The payload with an empty status and the state
  failed is a terminal failure.
\<close>

theorem blank_status_next_field:
  "(f \<in> set status_fields \<and> blank_status (getProp p f) \<longrightarrow>
      isTerminalSuccess p = isTerminalSuccess (without_field f p) \<and>
      isTerminalFailure p = isTerminalFailure (without_field f p))
   \<and> (blank_status v \<longleftrightarrow> (\<forall>s. v = JStr s \<longrightarrow> trim s = []))
   \<and> isTerminalFailure (JObj [(''status'', JStr []), (''state'', JStr ''failed'')])
   \<and> (\<not> blank_status (getProp p ''status'') \<longrightarrow>
        (isTerminalFailure p \<longleftrightarrow> normalizeStatus (getProp p ''status'') \<in> failure_words) \<and>
        (isTerminalSuccess p \<longleftrightarrow> decides_success (normalizeStatus (getProp p ''status'')) p))
   \<and> (blank_status (getProp p ''status'') \<and> \<not> blank_status (getProp p ''state'') \<longrightarrow>
        (isTerminalFailure p \<longleftrightarrow> normalizeStatus (getProp p ''state'') \<in> failure_words) \<and>
        (isTerminalSuccess p \<longleftrightarrow> decides_success (normalizeStatus (getProp p ''state'')) p))
   \<and> (blank_status (getProp p ''status'') \<and> blank_status (getProp p ''state'') \<longrightarrow>
        (isTerminalFailure p \<longleftrightarrow>
           normalizeStatus (getProp p ''task_status'') \<in> failure_words) \<and>
        (isTerminalSuccess p \<longleftrightarrow>
           decides_success (normalizeStatus (getProp p ''task_status'')) p))"
proof (intro conjI impI)
  assume h: "f \<in> set status_fields \<and> blank_status (getProp p f)"
  then have n: "normalizeStatus (getProp p f) = []"
    by (simp add: blank_status_normalize)
  from h n show "isTerminalSuccess p = isTerminalSuccess (without_field f p)"
    by (simp add: isTerminalSuccess_carried carried_status_without_field
        has_result_field_without_field)
  from h n show "isTerminalFailure p = isTerminalFailure (without_field f p)"
    by (simp add: isTerminalFailure_carried carried_status_without_field)
next
  show "blank_status v \<longleftrightarrow> (\<forall>s. v = JStr s \<longrightarrow> trim s = [])"
    by (cases v) (simp_all add: blank_status_def toLowerCase_def)
next
  show "isTerminalFailure (JObj [(''status'', JStr []), (''state'', JStr ''failed'')])"
    by code_simp
next
  assume a: "\<not> blank_status (getProp p ''status'')"
  show "isTerminalFailure p \<longleftrightarrow> normalizeStatus (getProp p ''status'') \<in> failure_words"
    by (simp add: isTerminalFailure_carried carried_status_first(1) [OF a])
  show "isTerminalSuccess p \<longleftrightarrow> decides_success (normalizeStatus (getProp p ''status'')) p"
    by (simp add: isTerminalSuccess_carried carried_status_first(1) [OF a] decides_success_def)
next
  assume "blank_status (getProp p ''status'') \<and> \<not> blank_status (getProp p ''state'')"
  then have c: "carried_status p = normalizeStatus (getProp p ''state'')"
    by (simp add: carried_status_first(2))
  show "isTerminalFailure p \<longleftrightarrow> normalizeStatus (getProp p ''state'') \<in> failure_words"
    by (simp add: isTerminalFailure_carried c)
  show "isTerminalSuccess p \<longleftrightarrow> decides_success (normalizeStatus (getProp p ''state'')) p"
    by (simp add: isTerminalSuccess_carried c decides_success_def)
next
  assume "blank_status (getProp p ''status'') \<and> blank_status (getProp p ''state'')"
  then have c: "carried_status p = normalizeStatus (getProp p ''task_status'')"
    by (simp add: carried_status_first(3))
  show "isTerminalFailure p \<longleftrightarrow> normalizeStatus (getProp p ''task_status'') \<in> failure_words"
    by (simp add: isTerminalFailure_carried c)
  show "isTerminalSuccess p \<longleftrightarrow>
          decides_success (normalizeStatus (getProp p ''task_status'')) p"
    by (simp add: isTerminalSuccess_carried c decides_success_def)
qed

theorem blank_status_next_field_witness:
  "isTerminalFailure (JObj [(''status'', JNum (Fin 7)), (''state'', JStr ''failed'')])
   \<and> isTerminalSuccess
       (JObj [(''status'', JStr ''  ''), (''state'', JNull), (''task_status'', JStr ''Done'')])
   \<and> \<not> isTerminalFailure
       (JObj [(''status'', JStr []), (''state'', JStr ''running''),
              (''task_status'', JStr ''failed'')])
   \<and> \<not> isTerminalSuccess
       (JObj [(''status'', JStr ''queued''), (''state'', JStr ''done''), (''result'', JNull)])
   \<and> isTerminalFailure (JObj [(''status'', JBool True), (''task_status'', JStr ''error'')])
     = isTerminalFailure (JObj [(''task_status'', JStr ''error'')])"
proof -
  let ?a = "JObj [(''status'', JNum (Fin 7)), (''state'', JStr ''failed'')]"
  let ?b = "JObj [(''status'', JStr ''  ''), (''state'', JNull), (''task_status'', JStr ''Done'')]"
  let ?c = "JObj [(''status'', JStr []), (''state'', JStr ''running''),
                  (''task_status'', JStr ''failed'')]"
  let ?d = "JObj [(''status'', JStr ''queued''), (''state'', JStr ''done''), (''result'', JNull)]"
  let ?e = "JObj [(''status'', JBool True), (''task_status'', JStr ''error'')]"
  have ha: "blank_status (getProp ?a ''status'') \<and> \<not> blank_status (getProp ?a ''state'')"
    by code_simp
  have va: "normalizeStatus (getProp ?a ''state'') \<in> failure_words"
    unfolding failure_words_def by code_simp
  have hb: "blank_status (getProp ?b ''status'') \<and> blank_status (getProp ?b ''state'')"
    by code_simp
  have vb: "decides_success (normalizeStatus (getProp ?b ''task_status'')) ?b"
    unfolding decides_success_def success_words_def processing_words_def has_result_field_def
    by code_simp
  have hc: "blank_status (getProp ?c ''status'') \<and> \<not> blank_status (getProp ?c ''state'')"
    by code_simp
  have vc: "normalizeStatus (getProp ?c ''state'') \<notin> failure_words"
    unfolding failure_words_def by code_simp
  have hd: "\<not> blank_status (getProp ?d ''status'')"
    by code_simp
  have vd: "\<not> decides_success (normalizeStatus (getProp ?d ''status'')) ?d"
    unfolding decides_success_def success_words_def processing_words_def has_result_field_def
    by code_simp
  have he: "''status'' \<in> set status_fields \<and> blank_status (getProp ?e ''status'')"
    by code_simp
  have we: "without_field ''status'' ?e = JObj [(''task_status'', JStr ''error'')]"
    by code_simp
  note t = blank_status_next_field
  note t4 = t [THEN conjunct2, THEN conjunct2, THEN conjunct2]
  note t5 = t4 [THEN conjunct2]
  note t6 = t5 [THEN conjunct2]
  have ra: "isTerminalFailure ?a"
    by (rule t5 [THEN conjunct1, THEN mp, OF ha, THEN conjunct1, THEN iffD2, OF va])
  have rb: "isTerminalSuccess ?b"
    by (rule t6 [THEN mp, OF hb, THEN conjunct2, THEN iffD2, OF vb])
  have rc: "\<not> isTerminalFailure ?c"
    unfolding t5 [THEN conjunct1, THEN mp, OF hc, THEN conjunct1] by (rule vc)
  have rd: "\<not> isTerminalSuccess ?d"
    unfolding t4 [THEN conjunct1, THEN mp, OF hd, THEN conjunct2] by (rule vd)
  from t [THEN conjunct1, THEN mp, OF he]
  have "isTerminalFailure ?e = isTerminalFailure (without_field ''status'' ?e)"
    by (rule conjunct2)
  then have re: "isTerminalFailure ?e = isTerminalFailure (JObj [(''task_status'', JStr ''error'')])"
    by (simp only: we)
  from ra rb rc rd re show ?thesis
    by (intro conjI)
qed

section \<open>The poll loop\<close>

lemma status_requests_append:
  "status_requests (xs @ ys) = status_requests xs + status_requests ys"
  by (simp add: status_requests_def)

lemma status_requests_rounds:
  "status_requests (concat (replicate k (poll_round url tid iv))) = k"
  by (induction k) (simp_all add: status_requests_def poll_round_def is_status_request_def)

lemma status_requests_single:
  "status_requests [Sent (StatusReq url tid)] = 1"
  by (simp add: status_requests_def is_status_request_def)

lemma js_le_mono: "a \<le> b \<Longrightarrow> js_le (Fin b) m \<Longrightarrow> js_le (Fin a) m"
  by (cases m) auto

lemma replicate_round_shift:
  "xs @ concat (replicate (Suc d) r) = (xs @ r) @ concat (replicate d r)"
  by simp

lemma poll_loop_skip:
  assumes "\<forall>a. attempt \<le> a \<and> a < k \<longrightarrow>
             js_le (Fin (of_nat a)) m \<and> still_running (sr a)"
    and "attempt \<le> k"
  shows "poll_loop sr url tid i iv m attempt tr =
         poll_loop sr url tid i iv m k
           (tr @ concat (replicate (k - attempt) (poll_round url tid iv)))"
  using assms
proof (induction "k - attempt" arbitrary: attempt tr)
  case 0
  then show ?case by simp
next
  case (Suc d)
  then have lt: "attempt < k" and d: "d = k - (attempt + 1)" and le: "attempt + 1 \<le> k"
    by auto
  from Suc.prems lt have now: "js_le (Fin (of_nat attempt)) m" "still_running (sr attempt)"
    by auto
  from now(2) obtain p where p: "sr attempt = Inr p" "\<not> isTerminalFailure p"
    "\<not> isTerminalSuccess p"
    by (auto simp: still_running_def split: sum.splits)
  have rest: "\<forall>a. attempt + 1 \<le> a \<and> a < k \<longrightarrow>
                js_le (Fin (of_nat a)) m \<and> still_running (sr a)"
    using Suc.prems(1) by auto
  have step: "poll_loop sr url tid i iv m attempt tr =
              poll_loop sr url tid i iv m (attempt + 1) (tr @ poll_round url tid iv)"
    by (subst poll_loop.simps) (simp add: now p poll_round_def)
  have "k - attempt = Suc d"
    using Suc.hyps(2) by simp
  then have shift: "tr @ concat (replicate (k - attempt) (poll_round url tid iv)) =
                    (tr @ poll_round url tid iv) @
                    concat (replicate (k - (attempt + 1)) (poll_round url tid iv))"
    using d by (simp only: replicate_round_shift)
  show ?case
    unfolding step shift
    by (rule Suc.hyps(1) [OF d rest le])
qed

lemma poll_loop_exit:
  "\<not> js_le (Fin (of_nat attempt)) m \<Longrightarrow>
   poll_loop sr url tid i iv m attempt tr = Some (Inl (PollTimeout tid m i), tr)"
  by (subst poll_loop.simps) simp

lemma poll_loop_failure_step:
  "js_le (Fin (of_nat attempt)) m \<Longrightarrow> sr attempt = Inr p \<Longrightarrow> isTerminalFailure p \<Longrightarrow>
   poll_loop sr url tid i iv m attempt tr =
     Some (Inl (TaskFailed tid (failureDetail p) i), tr @ [Sent (StatusReq url tid)])"
  by (subst poll_loop.simps) simp

lemma js_le_attempt:
  assumes "m \<noteq> PosInf" and "1 \<le> a"
  shows "js_le (Fin (of_nat a)) m \<longleftrightarrow> a \<le> max_polls m"
proof (cases m)
  case (Fin q)
  have "(of_nat a :: rat) \<le> q \<longleftrightarrow> int a \<le> \<lfloor>q\<rfloor>"
    using le_floor_iff [of "int a" q] by simp
  also have "\<dots> \<longleftrightarrow> a \<le> nat \<lfloor>q\<rfloor>"
    using assms(2) by linarith
  finally show ?thesis
    using Fin by (simp add: max_polls_def)
qed (use assms in \<open>simp_all add: max_polls_def\<close>)

lemma max_polls_whole: "max_polls (Fin (of_nat n)) = n"
  by (simp add: max_polls_def)

lemma Math_min_not_PosInf: "Math_min (Fin hi) x \<noteq> PosInf"
  by (cases x) (simp_all add: Math_min_def)

lemma pollingPolicy_not_PosInf: "snd (pollingPolicy toNumber ps nodeParams) \<noteq> PosInf"
  by (simp add: pollingPolicy_def split_beta Math_min_not_PosInf)

lemma poll_loop_returns:
  assumes "m \<noteq> PosInf" and "1 \<le> attempt" and "attempt \<le> max_polls m + 1"
  shows "\<exists>r tr'. poll_loop sr url tid i iv m attempt tr = Some (r, tr') \<and>
           status_requests tr' \<le> status_requests tr + (max_polls m + 1 - attempt)"
  using assms(2,3)
proof (induction "max_polls m + 1 - attempt" arbitrary: attempt tr)
  case 0
  then have "\<not> attempt \<le> max_polls m"
    by simp
  with assms(1) 0 have "\<not> js_le (Fin (of_nat attempt)) m"
    by (simp add: js_le_attempt)
  then show ?case
    by (simp add: poll_loop_exit)
next
  case (Suc d)
  then have le: "attempt \<le> max_polls m" and d: "d = max_polls m + 1 - (attempt + 1)"
    and le': "attempt + 1 \<le> max_polls m + 1" and pos: "1 \<le> attempt + 1"
    by auto
  with assms(1) Suc.prems have cond: "js_le (Fin (of_nat attempt)) m"
    by (simp add: js_le_attempt)
  have one: "status_requests (tr @ [Sent (StatusReq url tid)]) = status_requests tr + 1"
    by (simp add: status_requests_append status_requests_single)
  have room: "1 \<le> max_polls m + 1 - attempt"
    using le by simp
  show ?case
  proof (cases "sr attempt")
    case (Inl err)
    then have "poll_loop sr url tid i iv m attempt tr =
               Some (Inl (ApiError err i), tr @ [Sent (StatusReq url tid)])"
      using cond by (subst poll_loop.simps) simp
    with one room show ?thesis by simp
  next
    case (Inr p)
    show ?thesis
    proof (cases "isTerminalFailure p")
      case True
      with Inr cond have "poll_loop sr url tid i iv m attempt tr =
               Some (Inl (TaskFailed tid (failureDetail p) i), tr @ [Sent (StatusReq url tid)])"
        by (simp add: poll_loop_failure_step)
      with one room show ?thesis by simp
    next
      case nf: False
      show ?thesis
      proof (cases "isTerminalSuccess p")
        case True
        with Inr nf cond have "poll_loop sr url tid i iv m attempt tr =
               Some (Inr (unwrapFinalPayload p), tr @ [Sent (StatusReq url tid)])"
          by (subst poll_loop.simps) simp
        with one room show ?thesis by simp
      next
        case False
        with Inr nf cond have step: "poll_loop sr url tid i iv m attempt tr =
              poll_loop sr url tid i iv m (attempt + 1) (tr @ poll_round url tid iv)"
          by (subst poll_loop.simps) (simp add: poll_round_def)
        from Suc.hyps(1) [OF d pos le', of "tr @ poll_round url tid iv"]
        obtain r tr' where r: "poll_loop sr url tid i iv m (attempt + 1)
                (tr @ poll_round url tid iv) = Some (r, tr')"
          and b: "status_requests tr' \<le>
                  status_requests (tr @ poll_round url tid iv) + (max_polls m + 1 - (attempt + 1))"
          by blast
        have "status_requests (tr @ poll_round url tid iv) = status_requests tr + 1"
          using status_requests_rounds [of 1 url tid iv] by (simp add: status_requests_append)
        with b le have "status_requests tr' \<le> status_requests tr + (max_polls m + 1 - attempt)"
          by simp
        with step r show ?thesis by simp
      qed
    qed
  qed
qed

text \<open>
  The clamp leaves the attempt bound 2.5 as it is; with that bound and polls that stay
  unsuccessful the loop issues two status requests and raises the timeout error, which
  reports 2.5 attempts: the number of polls is not the bound.
\<close>

theorem poll_loop_whole_attempts_counterexample:
  "snd (pollingPolicy (\<lambda>v. NaN)
       \<lparr>p_binaryProperty = ''data'', p_task = ''transcribe'', p_model = ''palatine_small'',
        p_summarizeTask = [], p_summarizeThinking = False, p_summarizePrompt = [],
        p_pollIntervalMs = Fin 500, p_maxPollAttempts = Fin (5 / 2),
        p_pollIntervalMsSummarize = Fin 20000, p_maxPollAttemptsSummarize = Fin 500\<rparr>
       Map.empty) = Fin (5 / 2)
   \<and> poll_loop (\<lambda>a. Inr (JObj [(''status'', JStr ''processing'')])) ''u'' (JStr ''abc'') 0
       (Fin 500) (Fin (5 / 2)) 1 [] =
       Some (Inl (PollTimeout (JStr ''abc'') (Fin (5 / 2)) 0),
             [Sent (StatusReq ''u'' (JStr ''abc'')), Slept (Fin 500),
              Sent (StatusReq ''u'' (JStr ''abc'')), Slept (Fin 500)])
   \<and> status_requests
       [Sent (StatusReq ''u'' (JStr ''abc'')), Slept (Fin 500),
        Sent (StatusReq ''u'' (JStr ''abc'')), Slept (Fin 500)] = 2
   \<and> Fin (of_nat 2) \<noteq> Fin (5 / 2)"
proof -
  let ?run = "JObj [(''status'', JStr ''processing'')]"
  have c: "\<not> isTerminalFailure ?run" "\<not> isTerminalSuccess ?run"
    by code_simp+
  have loop: "poll_loop (\<lambda>a. Inr ?run) ''u'' (JStr ''abc'') 0 (Fin 500) (Fin (5 / 2)) 1 [] =
       Some (Inl (PollTimeout (JStr ''abc'') (Fin (5 / 2)) 0),
             [Sent (StatusReq ''u'' (JStr ''abc'')), Slept (Fin 500),
              Sent (StatusReq ''u'' (JStr ''abc'')), Slept (Fin 500)])"
    apply (subst poll_loop.simps)
    apply (simp add: c)
    apply (subst poll_loop.simps)
    apply (simp add: c)
    apply (subst poll_loop.simps)
    apply simp
    done
  have clamp: "snd (pollingPolicy (\<lambda>v. NaN)
       \<lparr>p_binaryProperty = ''data'', p_task = ''transcribe'', p_model = ''palatine_small'',
        p_summarizeTask = [], p_summarizeThinking = False, p_summarizePrompt = [],
        p_pollIntervalMs = Fin 500, p_maxPollAttempts = Fin (5 / 2),
        p_pollIntervalMsSummarize = Fin 20000, p_maxPollAttemptsSummarize = Fin 500\<rparr>
       Map.empty) = Fin (5 / 2)"
    by (simp add: pollingPolicy_def selectPolling_def Math_min_def Math_max_def)
  have count: "status_requests
       [Sent (StatusReq ''u'' (JStr ''abc'')), Slept (Fin 500),
        Sent (StatusReq ''u'' (JStr ''abc'')), Slept (Fin 500)] = 2"
    by (simp add: status_requests_def is_status_request_def)
  have ne: "Fin (of_nat 2) \<noteq> Fin (5 / 2)"
    by simp
  from clamp loop count ne show ?thesis
    by (intro conjI)
qed

text \<open>
  C2 (amended). Whatever the transport answers, the poll loop returns and issues at most
  as many status requests as the bound allows, that is \<^verbatim>\<open>maxPollAttempts\<close> rounded down
  (the bound itself when it is a whole number).  If each of those polls is unsuccessful,
  it raises the timeout error, which names the task identifier and the bound, after
  exactly that many status requests, each followed by one sleep, and issues no further
  one.  This holds for every bound except \<open>+Infinity\<close>, which the clamp never yields.
\<close>

theorem poll_loop_floor_bound:
  "(m \<noteq> PosInf \<longrightarrow>
      (\<exists>r tr'. poll_loop sr url tid i iv m 1 tr = Some (r, tr') \<and>
                status_requests tr' \<le> status_requests tr + max_polls m)
      \<and> ((\<forall>a. 1 \<le> a \<and> a \<le> max_polls m \<longrightarrow> still_running (sr a)) \<longrightarrow>
           poll_loop sr url tid i iv m 1 tr =
             Some (Inl (PollTimeout tid m i),
                   tr @ concat (replicate (max_polls m) (poll_round url tid iv))) \<and>
           status_requests (tr @ concat (replicate (max_polls m) (poll_round url tid iv))) =
             status_requests tr + max_polls m))
   \<and> max_polls (Fin q) = nat \<lfloor>q\<rfloor>
   \<and> max_polls (Fin (of_nat n)) = n
   \<and> snd (pollingPolicy toNumber ps nodeParams) \<noteq> PosInf"
proof (intro conjI impI)
  assume m: "m \<noteq> PosInf"
  show "\<exists>r tr'. poll_loop sr url tid i iv m 1 tr = Some (r, tr') \<and>
             status_requests tr' \<le> status_requests tr + max_polls m"
    using poll_loop_returns [OF m, of 1 sr url tid i iv tr] by simp
next
  assume m: "m \<noteq> PosInf"
    and run: "\<forall>a. 1 \<le> a \<and> a \<le> max_polls m \<longrightarrow> still_running (sr a)"
  have "\<forall>a. 1 \<le> a \<and> a < max_polls m + 1 \<longrightarrow>
               js_le (Fin (of_nat a)) m \<and> still_running (sr a)"
    using run m by (simp add: js_le_attempt)
  then have "poll_loop sr url tid i iv m 1 tr =
             poll_loop sr url tid i iv m (max_polls m + 1)
               (tr @ concat (replicate (max_polls m + 1 - 1) (poll_round url tid iv)))"
    by (intro poll_loop_skip) simp_all
  also have "\<not> js_le (Fin (of_nat (max_polls m + 1))) m"
    using m js_le_attempt [of m "max_polls m + 1"] by simp
  then have "poll_loop sr url tid i iv m (max_polls m + 1)
               (tr @ concat (replicate (max_polls m + 1 - 1) (poll_round url tid iv))) =
             Some (Inl (PollTimeout tid m i),
                   tr @ concat (replicate (max_polls m) (poll_round url tid iv)))"
    by (simp add: poll_loop_exit)
  finally show "poll_loop sr url tid i iv m 1 tr =
          Some (Inl (PollTimeout tid m i),
                tr @ concat (replicate (max_polls m) (poll_round url tid iv)))" .
next
  show "status_requests (tr @ concat (replicate (max_polls m) (poll_round url tid iv))) =
          status_requests tr + max_polls m"
    by (simp add: status_requests_append status_requests_rounds)
next
  show "max_polls (Fin q) = nat \<lfloor>q\<rfloor>"
    by (simp add: max_polls_def)
next
  show "max_polls (Fin (of_nat n)) = n"
    by (rule max_polls_whole)
next
  show "snd (pollingPolicy toNumber ps nodeParams) \<noteq> PosInf"
    by (rule pollingPolicy_not_PosInf)
qed

theorem poll_loop_floor_bound_witness:
  "poll_loop (\<lambda>a. Inr (JObj [(''status'', JStr ''processing'')])) ''u'' (JStr ''abc'') 0
     (Fin 500) (Fin (7 / 2)) 1 [] =
     Some (Inl (PollTimeout (JStr ''abc'') (Fin (7 / 2)) 0),
           [Sent (StatusReq ''u'' (JStr ''abc'')), Slept (Fin 500),
            Sent (StatusReq ''u'' (JStr ''abc'')), Slept (Fin 500),
            Sent (StatusReq ''u'' (JStr ''abc'')), Slept (Fin 500)])"
proof -
  let ?sr = "\<lambda>a::nat. (Inr (JObj [(''status'', JStr ''processing'')]) :: string + jsval)"
  have fin: "Fin (7 / 2) \<noteq> PosInf"
    by simp
  have "still_running (Inr (JObj [(''status'', JStr ''processing'')]))"
    by code_simp
  then have run: "\<forall>a. 1 \<le> a \<and> a \<le> max_polls (Fin (7 / 2)) \<longrightarrow> still_running (?sr a)"
    by simp
  have fl: "\<lfloor>7 / 2 :: rat\<rfloor> = 3"
    by (simp add: floor_eq_iff)
  have polls: "max_polls (Fin (7 / 2)) = 3"
    by (simp add: max_polls_def fl)
  have rounds: "[] @ concat (replicate 3 (poll_round ''u'' (JStr ''abc'') (Fin 500))) =
           [Sent (StatusReq ''u'' (JStr ''abc'')), Slept (Fin 500),
            Sent (StatusReq ''u'' (JStr ''abc'')), Slept (Fin 500),
            Sent (StatusReq ''u'' (JStr ''abc'')), Slept (Fin 500)]"
    by (simp add: poll_round_def numeral_3_eq_3)
  from poll_loop_floor_bound [of "Fin (7 / 2)" ?sr "''u''" "JStr ''abc''" 0 "Fin 500" "[]",
      THEN conjunct1, THEN mp, OF fin, THEN conjunct2, THEN mp, OF run, THEN conjunct1]
  show ?thesis
    by (simp only: polls rounds)
qed

text \<open>
  C3. A payload whose carried status is one of failed, error, canceled, cancelled is a
  terminal failure.  When it answers poll number \<open>k\<close> (within the attempt limit, the
  polls before it being unsuccessful), the loop raises at once: the error carries the task
  identifier, the item index and the detail taken from the error field if that is truthy,
  else from the message field if that is truthy, else the serialised payload; the trace
  ends with the status request number \<open>k\<close>, so nothing is requested after it.
\<close>

theorem terminal_failure_raises:
  "(carried_status p \<in> failure_words \<longrightarrow> isTerminalFailure p)
   \<and> (carried_status p \<in> failure_words \<and> 1 \<le> k \<and> js_le (Fin (of_nat k)) m \<and>
        sr k = Inr p \<and> (\<forall>a. 1 \<le> a \<and> a < k \<longrightarrow> still_running (sr a)) \<longrightarrow>
        poll_loop sr url tid i iv m 1 tr =
          Some (Inl (TaskFailed tid (failureDetail p) i),
                tr @ concat (replicate (k - 1) (poll_round url tid iv)) @
                [Sent (StatusReq url tid)]) \<and>
        status_requests (tr @ concat (replicate (k - 1) (poll_round url tid iv)) @
                [Sent (StatusReq url tid)]) = status_requests tr + k)
   \<and> failureDetail p =
        (if truthy (getProp p ''error'') then Field (getProp p ''error'')
         else if truthy (getProp p ''message'') then Field (getProp p ''message'')
         else Serialized p)"
proof (intro conjI impI)
  show "carried_status p \<in> failure_words \<Longrightarrow> isTerminalFailure p"
    by (simp add: isTerminalFailure_carried)
next
  assume h: "carried_status p \<in> failure_words \<and> 1 \<le> k \<and> js_le (Fin (of_nat k)) m \<and>
        sr k = Inr p \<and> (\<forall>a. 1 \<le> a \<and> a < k \<longrightarrow> still_running (sr a))"
  then have fail: "isTerminalFailure p"
    by (simp add: isTerminalFailure_carried)
  have "\<forall>a. 1 \<le> a \<and> a < k \<longrightarrow> js_le (Fin (of_nat a)) m \<and> still_running (sr a)"
  proof (intro allI impI)
    fix a :: nat
    assume a: "1 \<le> a \<and> a < k"
    then have "(of_nat a :: rat) \<le> of_nat k" by simp
    with h have "js_le (Fin (of_nat a)) m" by (blast intro: js_le_mono)
    with h a show "js_le (Fin (of_nat a)) m \<and> still_running (sr a)" by blast
  qed
  moreover from h have "1 \<le> k" by simp
  ultimately have "poll_loop sr url tid i iv m 1 tr =
      poll_loop sr url tid i iv m k (tr @ concat (replicate (k - 1) (poll_round url tid iv)))"
    by (rule poll_loop_skip)
  also from h fail have "\<dots> = Some (Inl (TaskFailed tid (failureDetail p) i),
      (tr @ concat (replicate (k - 1) (poll_round url tid iv))) @ [Sent (StatusReq url tid)])"
    by (intro poll_loop_failure_step) simp_all
  finally show "poll_loop sr url tid i iv m 1 tr =
          Some (Inl (TaskFailed tid (failureDetail p) i),
                tr @ concat (replicate (k - 1) (poll_round url tid iv)) @
                [Sent (StatusReq url tid)])"
    by simp
next
  assume h: "carried_status p \<in> failure_words \<and> 1 \<le> k \<and> js_le (Fin (of_nat k)) m \<and>
        sr k = Inr p \<and> (\<forall>a. 1 \<le> a \<and> a < k \<longrightarrow> still_running (sr a))"
  then show "status_requests (tr @ concat (replicate (k - 1) (poll_round url tid iv)) @
                [Sent (StatusReq url tid)]) = status_requests tr + k"
    by (simp add: status_requests_append status_requests_rounds status_requests_single)
next
  show "failureDetail p =
        (if truthy (getProp p ''error'') then Field (getProp p ''error'')
         else if truthy (getProp p ''message'') then Field (getProp p ''message'')
         else Serialized p)"
    by (simp add: failureDetail_def)
qed

theorem terminal_failure_raises_witness:
  "poll_loop (\<lambda>a. if a = 1 then Inr (JObj [(''status'', JStr ''processing'')])
                   else Inr (JObj [(''state'', JStr ''Failed''), (''error'', JStr ''bad audio'')]))
     ''u'' (JStr ''abc'') 4 (Fin 500) (Fin 200) 1 [] =
     Some (Inl (TaskFailed (JStr ''abc'') (Field (JStr ''bad audio'')) 4),
           [Sent (StatusReq ''u'' (JStr ''abc'')), Slept (Fin 500),
            Sent (StatusReq ''u'' (JStr ''abc''))])"
proof -
  let ?run = "JObj [(''status'', JStr ''processing'')]"
  let ?bad = "JObj [(''state'', JStr ''Failed''), (''error'', JStr ''bad audio'')]"
  let ?sr = "\<lambda>a::nat. if a = 1 then (Inr ?run :: string + jsval) else Inr ?bad"
  have c: "carried_status ?bad \<in> failure_words"
    unfolding failure_words_def by code_simp
  have r: "still_running (Inr ?run)"
    by code_simp
  have d: "failureDetail ?bad = Field (JStr ''bad audio'')"
    by code_simp
  have h: "carried_status ?bad \<in> failure_words \<and> 1 \<le> (2::nat) \<and>
           js_le (Fin (of_nat 2)) (Fin 200) \<and> ?sr 2 = Inr ?bad \<and>
           (\<forall>a. 1 \<le> a \<and> a < 2 \<longrightarrow> still_running (?sr a))"
    using c r by auto
  have rounds: "[] @ concat (replicate (2 - 1) (poll_round ''u'' (JStr ''abc'') (Fin 500))) @
                [Sent (StatusReq ''u'' (JStr ''abc''))] =
           [Sent (StatusReq ''u'' (JStr ''abc'')), Slept (Fin 500),
            Sent (StatusReq ''u'' (JStr ''abc''))]"
    by (simp add: poll_round_def)
  from terminal_failure_raises [of ?bad 2 "Fin 200" ?sr "''u''" "JStr ''abc''" 4 "Fin 500" "[]",
      THEN conjunct2, THEN conjunct1, THEN mp, OF h, THEN conjunct1]
  show ?thesis
    by (simp only: rounds d)
qed

section \<open>Task identifier\<close>

lemma extractTaskId_not_object: "\<not> is_object resp \<Longrightarrow> extractTaskId resp = JUndefined"
  by (cases resp) (simp_all add: is_object_def extractTaskId_def js_or_def)

lemma extractTaskId_chain:
  "extractTaskId resp =
     js_or (js_or (js_or (getProp resp ''task_id'') (getProp resp ''taskId''))
                  (getProp resp ''id''))
           (getProp (getProp resp ''task'') ''id'')"
  by (cases resp) (simp_all add: extractTaskId_def js_or_def)

text \<open>
  The response with an empty \<^verbatim>\<open>task_id\<close> and the \<^verbatim>\<open>taskId\<close> x: the first present
  candidate is the empty string, and the extraction returns x.
\<close>

theorem extractTaskId_first_present_counterexample:
  "first_such present
     (id_candidates (JObj [(''task_id'', JStr []), (''taskId'', JStr ''x'')])) JUndefined
     = JStr []
   \<and> extractTaskId (JObj [(''task_id'', JStr []), (''taskId'', JStr ''x'')]) = JStr ''x''
   \<and> extractTaskId (JObj [(''task_id'', JStr []), (''taskId'', JStr ''x'')]) \<noteq>
       first_such present
         (id_candidates (JObj [(''task_id'', JStr []), (''taskId'', JStr ''x'')])) JUndefined"
  by (simp add: first_such_def present_def id_candidates_def extractTaskId_def js_or_def)

text \<open>
  C4 (amended). Task identifier extraction is a total function that returns the first
  truthy value among \<^verbatim>\<open>task_id\<close>, \<^verbatim>\<open>taskId\<close>, \<^verbatim>\<open>id\<close>, in that order, and the nested
  \<^verbatim>\<open>task.id\<close> (whatever it holds, \<^verbatim>\<open>undefined\<close> when absent) when none of the three is
  truthy.  For an input that is not an object, and for an object in which none of the
  four candidates is present, the result is \<^verbatim>\<open>undefined\<close>.  Each of the four one-field
  responses with the identifier x yields x, and the empty object yields \<^verbatim>\<open>undefined\<close>.
\<close>

theorem extractTaskId_first_truthy:
  "extractTaskId resp =
     first_such truthy (take 3 (id_candidates resp)) (id_candidates resp ! 3)
   \<and> (\<not> is_object resp \<longrightarrow> extractTaskId resp = JUndefined)
   \<and> ((\<forall>c \<in> set (id_candidates resp). \<not> present c) \<longrightarrow> extractTaskId resp = JUndefined)
   \<and> extractTaskId (JObj [(''task_id'', JStr ''x'')]) = JStr ''x''
   \<and> extractTaskId (JObj [(''taskId'', JStr ''x'')]) = JStr ''x''
   \<and> extractTaskId (JObj [(''id'', JStr ''x'')]) = JStr ''x''
   \<and> extractTaskId (JObj [(''task'', JObj [(''id'', JStr ''x'')])]) = JStr ''x''
   \<and> extractTaskId (JObj []) = JUndefined"
proof (intro conjI impI)
  show "extractTaskId resp =
     first_such truthy (take 3 (id_candidates resp)) (id_candidates resp ! 3)"
    by (simp add: extractTaskId_chain id_candidates_def first_such_def js_or_def)
next
  assume "\<not> is_object resp"
  then show "extractTaskId resp = JUndefined"
    by (rule extractTaskId_not_object)
next
  assume "\<forall>c \<in> set (id_candidates resp). \<not> present c"
  then show "extractTaskId resp = JUndefined"
    by (simp add: extractTaskId_chain id_candidates_def present_def js_or_def)
qed (simp_all add: extractTaskId_def js_or_def)

theorem extractTaskId_first_truthy_witness:
  "extractTaskId (JNum (Fin 5)) = JUndefined
   \<and> extractTaskId (JObj [(''other'', JStr ''y'')]) = JUndefined"
proof -
  have n: "\<not> is_object (JNum (Fin 5))"
    by (simp add: is_object_def)
  have a: "\<forall>c \<in> set (id_candidates (JObj [(''other'', JStr ''y'')])). \<not> present c"
    by (simp add: id_candidates_def present_def)
  note rest = extractTaskId_first_truthy [THEN conjunct2]
  from rest [THEN conjunct1, THEN mp, OF n]
    rest [THEN conjunct2, THEN conjunct1, THEN mp, OF a]
  show ?thesis
    by (rule conjI)
qed

section \<open>Result unwrapping\<close>

text \<open>
  A completed payload whose \<^verbatim>\<open>result\<close> is \<^verbatim>\<open>null\<close> and whose \<^verbatim>\<open>data\<close> is a string:
  the first present field is \<^verbatim>\<open>result\<close>, and the unwrapper returns the data.
\<close>

theorem unwrapFinalPayload_first_present_counterexample:
  "isTerminalSuccess
     (JObj [(''status'', JStr ''completed''), (''result'', JNull), (''data'', JStr ''d'')])
   \<and> first_such present
       (result_candidates
          (JObj [(''status'', JStr ''completed''), (''result'', JNull), (''data'', JStr ''d'')]))
       (JObj [(''status'', JStr ''completed''), (''result'', JNull), (''data'', JStr ''d'')])
     = JNull
   \<and> unwrapFinalPayload
       (JObj [(''status'', JStr ''completed''), (''result'', JNull), (''data'', JStr ''d'')])
     = JStr ''d''
   \<and> unwrapFinalPayload
       (JObj [(''status'', JStr ''completed''), (''result'', JNull), (''data'', JStr ''d'')])
     \<noteq> first_such present
       (result_candidates
          (JObj [(''status'', JStr ''completed''), (''result'', JNull), (''data'', JStr ''d'')]))
       (JObj [(''status'', JStr ''completed''), (''result'', JNull), (''data'', JStr ''d'')])"
  by code_simp

text \<open>
  C5 (amended). The result unwrapper is a total function: for every payload it returns the
  first value among the fields result, data, output, response, in that order, that is
  neither \<^verbatim>\<open>undefined\<close> nor \<^verbatim>\<open>null\<close>, and the whole payload when there is none.
\<close>

theorem unwrapFinalPayload_first_non_nullish:
  "unwrapFinalPayload p = first_such (\<lambda>v. \<not> nullish v) (result_candidates p) p"
  by (simp add: unwrapFinalPayload_def result_candidates_def first_such_def nullish_def
      js_nullish_def)

theorem unwrapFinalPayload_first_non_nullish_witness:
  "unwrapFinalPayload (JObj [(''result'', JNull), (''output'', JBool False)]) = JBool False
   \<and> unwrapFinalPayload (JObj [(''text'', JStr ''t'')]) = JObj [(''text'', JStr ''t'')]"
proof -
  have a: "first_such (\<lambda>v. \<not> nullish v)
             (result_candidates (JObj [(''result'', JNull), (''output'', JBool False)]))
             (JObj [(''result'', JNull), (''output'', JBool False)]) = JBool False"
    by (simp add: first_such_def nullish_def result_candidates_def)
  have b: "first_such (\<lambda>v. \<not> nullish v)
             (result_candidates (JObj [(''text'', JStr ''t'')]))
             (JObj [(''text'', JStr ''t'')]) = JObj [(''text'', JStr ''t'')]"
    by (simp add: first_such_def nullish_def result_candidates_def)
  show ?thesis
    using unwrapFinalPayload_first_non_nullish
      [of "JObj [(''result'', JNull), (''output'', JBool False)]"]
      unwrapFinalPayload_first_non_nullish [of "JObj [(''text'', JStr ''t'')]"]
    by (simp only: a b)
qed

section \<open>The polling policy\<close>

lemma legacyInterval_cases:
  "legacyInterval toNumber nodeParams v =
     (case nodeParams ''pollIntervalMs'' of
        None \<Rightarrow> v
      | Some raw \<Rightarrow>
          if nodeParams ''pollIntervalMsSummarize'' = None \<and>
             legacyNumber toNumber raw \<notin> {NaN, Fin 500, Fin 1000}
          then legacyNumber toNumber raw else v)"
  by (auto simp: legacyInterval_def Let_def split: option.splits)

lemma legacyAttempts_cases:
  "legacyAttempts toNumber nodeParams v =
     (case nodeParams ''maxPollAttempts'' of
        None \<Rightarrow> v
      | Some raw \<Rightarrow>
          if nodeParams ''maxPollAttemptsSummarize'' = None \<and>
             legacyNumber toNumber raw \<notin> {NaN, Fin 200, Fin 300}
          then legacyNumber toNumber raw else v)"
  by (auto simp: legacyAttempts_def Let_def split: option.splits)

lemma legacyInterval_not_NaN: "v \<noteq> NaN \<Longrightarrow> legacyInterval toNumber nodeParams v \<noteq> NaN"
  by (simp add: legacyInterval_cases split: option.splits)

lemma legacyAttempts_not_NaN: "v \<noteq> NaN \<Longrightarrow> legacyAttempts toNumber nodeParams v \<noteq> NaN"
  by (simp add: legacyAttempts_cases split: option.splits)

lemma selectPolling_not_NaN:
  "configured_interval ps \<noteq> NaN \<Longrightarrow> fst (selectPolling toNumber ps nodeParams) \<noteq> NaN"
  "configured_attempts ps \<noteq> NaN \<Longrightarrow> snd (selectPolling toNumber ps nodeParams) \<noteq> NaN"
  by (auto simp: selectPolling_def configured_interval_def configured_attempts_def
      legacyInterval_not_NaN legacyAttempts_not_NaN split: if_splits)

lemma clamp_nearest:
  assumes "v \<noteq> NaN" and "lo \<le> hi"
  shows "Math_min (Fin hi) (Math_max (Fin lo) v) = nearest_bound lo hi v"
    and "in_range lo hi (Math_min (Fin hi) (Math_max (Fin lo) v))"
  using assms by (cases v; auto simp: Math_min_def Math_max_def nearest_bound_def in_range_def)+

lemma pollingPolicy_clamp:
  "pollingPolicy toNumber ps nodeParams =
     (Math_min (Fin 900000) (Math_max (Fin 500) (fst (selectPolling toNumber ps nodeParams))),
      Math_min (Fin 1000) (Math_max (Fin 1) (snd (selectPolling toNumber ps nodeParams))))"
  by (simp add: pollingPolicy_def split_beta)

text \<open>
  A summarize item whose stored parameters hold the legacy \<^verbatim>\<open>pollIntervalMs\<close> 1000 and no
  \<^verbatim>\<open>pollIntervalMsSummarize\<close>: 1000 is not the declared default 500 of the legacy
  parameter, and still the per-task value 20000 is kept.
\<close>

theorem legacy_default_counterexample:
  "p_task \<lparr>p_binaryProperty = ''data'', p_task = ''summarize'', p_model = [],
           p_summarizeTask = ''meeting_summary'', p_summarizeThinking = False,
           p_summarizePrompt = [], p_pollIntervalMs = Fin 1000, p_maxPollAttempts = Fin 200,
           p_pollIntervalMsSummarize = Fin 20000, p_maxPollAttemptsSummarize = Fin 500\<rparr>
     = ''summarize''
   \<and> [''pollIntervalMs'' \<mapsto> JNum (Fin 1000)] ''pollIntervalMsSummarize'' = None
   \<and> [''pollIntervalMs'' \<mapsto> JNum (Fin 1000)] ''pollIntervalMs'' = Some (JNum (Fin 1000))
   \<and> Fin 1000 \<noteq> default_pollIntervalMs
   \<and> fst (selectPolling (\<lambda>v. NaN)
            \<lparr>p_binaryProperty = ''data'', p_task = ''summarize'', p_model = [],
             p_summarizeTask = ''meeting_summary'', p_summarizeThinking = False,
             p_summarizePrompt = [], p_pollIntervalMs = Fin 1000, p_maxPollAttempts = Fin 200,
             p_pollIntervalMsSummarize = Fin 20000, p_maxPollAttemptsSummarize = Fin 500\<rparr>
            [''pollIntervalMs'' \<mapsto> JNum (Fin 1000)]) = Fin 20000"
  by (simp add: selectPolling_def legacyInterval_def legacyNumber_def default_pollIntervalMs_def)

text \<open>
  C6 (amended). For a summarize item, the legacy value replaces the per-task value when
  the newer parameter is not among the stored node parameters, the legacy parameter is,
  and the legacy value, read as a number, is not \<open>NaN\<close> and is neither 500 nor 1000 (for
  the interval), neither 200 nor 300 (for the attempts).  In every other case the per-task
  value is used unchanged.
\<close>

theorem legacy_override_rule:
  "p_task ps = ''summarize'' \<longrightarrow>
     (nodeParams ''pollIntervalMsSummarize'' = None \<and> nodeParams ''pollIntervalMs'' = Some raw \<and>
      legacyNumber toNumber raw \<notin> {NaN, Fin 500, Fin 1000} \<longrightarrow>
        fst (selectPolling toNumber ps nodeParams) = legacyNumber toNumber raw)
   \<and> (nodeParams ''pollIntervalMsSummarize'' \<noteq> None \<or> nodeParams ''pollIntervalMs'' = None \<or>
      (nodeParams ''pollIntervalMs'' = Some raw \<and>
       legacyNumber toNumber raw \<in> {NaN, Fin 500, Fin 1000}) \<longrightarrow>
        fst (selectPolling toNumber ps nodeParams) = p_pollIntervalMsSummarize ps)
   \<and> (nodeParams ''maxPollAttemptsSummarize'' = None \<and> nodeParams ''maxPollAttempts'' = Some raw' \<and>
      legacyNumber toNumber raw' \<notin> {NaN, Fin 200, Fin 300} \<longrightarrow>
        snd (selectPolling toNumber ps nodeParams) = legacyNumber toNumber raw')
   \<and> (nodeParams ''maxPollAttemptsSummarize'' \<noteq> None \<or> nodeParams ''maxPollAttempts'' = None \<or>
      (nodeParams ''maxPollAttempts'' = Some raw' \<and>
       legacyNumber toNumber raw' \<in> {NaN, Fin 200, Fin 300}) \<longrightarrow>
        snd (selectPolling toNumber ps nodeParams) = p_maxPollAttemptsSummarize ps)"
  by (auto simp: selectPolling_def legacyInterval_cases legacyAttempts_cases
      split: option.splits)

theorem legacy_override_rule_witness:
  "selectPolling (\<lambda>v. if v = JStr ''50'' then Fin 50 else NaN)
     \<lparr>p_binaryProperty = ''data'', p_task = ''summarize'', p_model = [],
      p_summarizeTask = ''meeting_summary'', p_summarizeThinking = False,
      p_summarizePrompt = [], p_pollIntervalMs = Fin 500, p_maxPollAttempts = Fin 200,
      p_pollIntervalMsSummarize = Fin 20000, p_maxPollAttemptsSummarize = Fin 0\<rparr>
     [''pollIntervalMs'' \<mapsto> JNum (Fin 2000), ''maxPollAttempts'' \<mapsto> JStr ''50'']
     = (Fin 2000, Fin 50)
   \<and> selectPolling (\<lambda>v. NaN)
     \<lparr>p_binaryProperty = ''data'', p_task = ''summarize'', p_model = [],
      p_summarizeTask = ''meeting_summary'', p_summarizeThinking = False,
      p_summarizePrompt = [], p_pollIntervalMs = Fin 500, p_maxPollAttempts = Fin 200,
      p_pollIntervalMsSummarize = Fin 20000, p_maxPollAttemptsSummarize = Fin 0\<rparr>
     [''pollIntervalMs'' \<mapsto> JNum (Fin 2000), ''pollIntervalMsSummarize'' \<mapsto> JNum (Fin 20000),
      ''maxPollAttempts'' \<mapsto> JNum (Fin 300)]
     = (Fin 20000, Fin 0)"
proof -
  let ?ps = "\<lparr>p_binaryProperty = ''data'', p_task = ''summarize'', p_model = [],
      p_summarizeTask = ''meeting_summary'', p_summarizeThinking = False,
      p_summarizePrompt = [], p_pollIntervalMs = Fin 500, p_maxPollAttempts = Fin 200,
      p_pollIntervalMsSummarize = Fin 20000, p_maxPollAttemptsSummarize = Fin 0\<rparr>"
  let ?toN = "\<lambda>v. if v = JStr ''50'' then Fin 50 else NaN"
  let ?np = "[''pollIntervalMs'' \<mapsto> JNum (Fin 2000), ''maxPollAttempts'' \<mapsto> JStr ''50'']"
  let ?toN' = "\<lambda>v::jsval. NaN"
  let ?np' = "[''pollIntervalMs'' \<mapsto> JNum (Fin 2000),
               ''pollIntervalMsSummarize'' \<mapsto> JNum (Fin 20000),
               ''maxPollAttempts'' \<mapsto> JNum (Fin 300)]"
  have t: "p_task ?ps = ''summarize''"
    by simp
  have a: "?np ''pollIntervalMsSummarize'' = None \<and>
           ?np ''pollIntervalMs'' = Some (JNum (Fin 2000)) \<and>
           legacyNumber ?toN (JNum (Fin 2000)) \<notin> {NaN, Fin 500, Fin 1000}"
    by (simp add: legacyNumber_def)
  have b: "?np ''maxPollAttemptsSummarize'' = None \<and>
           ?np ''maxPollAttempts'' = Some (JStr ''50'') \<and>
           legacyNumber ?toN (JStr ''50'') \<notin> {NaN, Fin 200, Fin 300}"
    by (simp add: legacyNumber_def)
  have c: "?np' ''pollIntervalMsSummarize'' \<noteq> None \<or> ?np' ''pollIntervalMs'' = None \<or>
           (?np' ''pollIntervalMs'' = Some (JNum (Fin 2000)) \<and>
            legacyNumber ?toN' (JNum (Fin 2000)) \<in> {NaN, Fin 500, Fin 1000})"
    by simp
  have d: "?np' ''maxPollAttemptsSummarize'' \<noteq> None \<or> ?np' ''maxPollAttempts'' = None \<or>
           (?np' ''maxPollAttempts'' = Some (JNum (Fin 300)) \<and>
            legacyNumber ?toN' (JNum (Fin 300)) \<in> {NaN, Fin 200, Fin 300})"
    by (simp add: legacyNumber_def)
  have n1: "legacyNumber ?toN (JNum (Fin 2000)) = Fin 2000"
    by (simp add: legacyNumber_def)
  have n2: "legacyNumber ?toN (JStr ''50'') = Fin 50"
    by (simp add: legacyNumber_def)
  have p1: "p_pollIntervalMsSummarize ?ps = Fin 20000"
    by simp
  have p2: "p_maxPollAttemptsSummarize ?ps = Fin 0"
    by simp
  note r = legacy_override_rule [THEN mp, OF t]
  from r [THEN conjunct1, THEN mp, OF a]
  have 1: "fst (selectPolling ?toN ?ps ?np) = Fin 2000"
    by (simp only: n1)
  from r [THEN conjunct2, THEN conjunct2, THEN conjunct1, THEN mp, OF b]
  have 2: "snd (selectPolling ?toN ?ps ?np) = Fin 50"
    by (simp only: n2)
  from r [THEN conjunct2, THEN conjunct1, THEN mp, OF c]
  have 3: "fst (selectPolling ?toN' ?ps ?np') = Fin 20000"
    by (simp only: p1)
  from r [THEN conjunct2, THEN conjunct2, THEN conjunct2, THEN mp, OF d]
  have 4: "snd (selectPolling ?toN' ?ps ?np') = Fin 0"
    by (simp only: p2)
  from 1 2 3 4 show ?thesis
    by (simp only: prod_eq_iff fst_conv snd_conv)
qed

text \<open>
  C7. The clamp does not hold for \<open>NaN\<close>.  For a transcribe item whose
  \<^verbatim>\<open>maxPollAttempts\<close> parameter is \<open>NaN\<close> nothing is substituted and
  \<^verbatim>\<open>Math.min(1000, Math.max(1, NaN))\<close> is \<open>NaN\<close>: the value used for the loop lies
  outside [1, 1000].  The loop condition \<^verbatim>\<open>1 <= NaN\<close> is false, so the loop makes no
  status request and the item fails with the timeout error after zero polls.
\<close>

theorem clamp_NaN_passes:
  "configured_attempts
     \<lparr>p_binaryProperty = ''data'', p_task = ''transcribe'', p_model = ''palatine_small'',
      p_summarizeTask = [], p_summarizeThinking = False, p_summarizePrompt = [],
      p_pollIntervalMs = Fin 500, p_maxPollAttempts = NaN,
      p_pollIntervalMsSummarize = Fin 20000, p_maxPollAttemptsSummarize = Fin 500\<rparr> = NaN
   \<and> snd (pollingPolicy (\<lambda>v. NaN)
       \<lparr>p_binaryProperty = ''data'', p_task = ''transcribe'', p_model = ''palatine_small'',
        p_summarizeTask = [], p_summarizeThinking = False, p_summarizePrompt = [],
        p_pollIntervalMs = Fin 500, p_maxPollAttempts = NaN,
        p_pollIntervalMsSummarize = Fin 20000, p_maxPollAttemptsSummarize = Fin 500\<rparr>
       Map.empty) = NaN
   \<and> \<not> in_range 1 1000 NaN
   \<and> poll_loop (\<lambda>a. Inr (JObj [(''status'', JStr ''completed'')])) ''u'' (JStr ''abc'') 0
       (Fin 500) NaN 1 [] = Some (Inl (PollTimeout (JStr ''abc'') NaN 0), [])"
  by (simp add: pollingPolicy_def selectPolling_def Math_min_def Math_max_def in_range_def
      configured_attempts_def poll_loop_exit)

text \<open>
  Every other number is clamped.  Whenever the configured per-task interval is not \<open>NaN\<close>,
  the interval used for the loop lies in [500, 900000] and is the value selected before
  the clamp (the per-task value or the substituted legacy value) moved to the nearest
  bound; the same holds for the attempts and [1, 1000].  This covers every path: a
  substituted legacy value is never \<open>NaN\<close>.
\<close>

lemma clamp_numbers:
  "(configured_interval ps \<noteq> NaN \<longrightarrow>
      in_range 500 900000 (fst (pollingPolicy toNumber ps nodeParams)) \<and>
      fst (pollingPolicy toNumber ps nodeParams) =
        nearest_bound 500 900000 (fst (selectPolling toNumber ps nodeParams)))
   \<and> (configured_attempts ps \<noteq> NaN \<longrightarrow>
      in_range 1 1000 (snd (pollingPolicy toNumber ps nodeParams)) \<and>
      snd (pollingPolicy toNumber ps nodeParams) =
        nearest_bound 1 1000 (snd (selectPolling toNumber ps nodeParams)))"
proof (intro conjI impI)
  assume "configured_interval ps \<noteq> NaN"
  then have n: "fst (selectPolling toNumber ps nodeParams) \<noteq> NaN"
    by (rule selectPolling_not_NaN)
  from clamp_nearest(2) [OF n, of 500 900000]
  show "in_range 500 900000 (fst (pollingPolicy toNumber ps nodeParams))"
    by (simp add: pollingPolicy_clamp)
  from clamp_nearest(1) [OF n, of 500 900000]
  show "fst (pollingPolicy toNumber ps nodeParams) =
        nearest_bound 500 900000 (fst (selectPolling toNumber ps nodeParams))"
    by (simp add: pollingPolicy_clamp)
next
  assume "configured_attempts ps \<noteq> NaN"
  then have n: "snd (selectPolling toNumber ps nodeParams) \<noteq> NaN"
    by (rule selectPolling_not_NaN)
  from clamp_nearest(2) [OF n, of 1 1000]
  show "in_range 1 1000 (snd (pollingPolicy toNumber ps nodeParams))"
    by (simp add: pollingPolicy_clamp)
  from clamp_nearest(1) [OF n, of 1 1000]
  show "snd (pollingPolicy toNumber ps nodeParams) =
        nearest_bound 1 1000 (snd (selectPolling toNumber ps nodeParams))"
    by (simp add: pollingPolicy_clamp)
qed

lemma clamp_numbers_example:
  "pollingPolicy (\<lambda>v. NaN)
     \<lparr>p_binaryProperty = ''data'', p_task = ''summarize'', p_model = [],
      p_summarizeTask = ''meeting_summary'', p_summarizeThinking = False,
      p_summarizePrompt = [], p_pollIntervalMs = Fin 500, p_maxPollAttempts = Fin 200,
      p_pollIntervalMsSummarize = Fin 20000, p_maxPollAttemptsSummarize = Fin 0\<rparr>
     [''pollIntervalMs'' \<mapsto> JNum (Fin 5000000)] = (Fin 900000, Fin 1)"
proof -
  let ?ps = "\<lparr>p_binaryProperty = ''data'', p_task = ''summarize'', p_model = [],
      p_summarizeTask = ''meeting_summary'', p_summarizeThinking = False,
      p_summarizePrompt = [], p_pollIntervalMs = Fin 500, p_maxPollAttempts = Fin 200,
      p_pollIntervalMsSummarize = Fin 20000, p_maxPollAttemptsSummarize = Fin 0\<rparr>"
  let ?toN = "\<lambda>v::jsval. NaN"
  let ?np = "[''pollIntervalMs'' \<mapsto> JNum (Fin 5000000)]"
  have i: "configured_interval ?ps \<noteq> NaN"
    by (simp add: configured_interval_def)
  have a: "configured_attempts ?ps \<noteq> NaN"
    by (simp add: configured_attempts_def)
  have s: "selectPolling ?toN ?ps ?np = (Fin 5000000, Fin 0)"
    by (simp add: selectPolling_def legacyInterval_def legacyAttempts_def legacyNumber_def)
  have b1: "nearest_bound 500 900000 (Fin 5000000) = Fin 900000"
    by (simp add: nearest_bound_def)
  have b2: "nearest_bound 1 1000 (Fin 0) = Fin 1"
    by (simp add: nearest_bound_def)
  from clamp_numbers [THEN conjunct1, THEN mp, OF i, THEN conjunct2]
  have 1: "fst (pollingPolicy ?toN ?ps ?np) = Fin 900000"
    by (simp only: s fst_conv b1)
  from clamp_numbers [THEN conjunct2, THEN mp, OF a, THEN conjunct2]
  have 2: "snd (pollingPolicy ?toN ?ps ?np) = Fin 1"
    by (simp only: s snd_conv b2)
  from 1 2 show ?thesis
    by (simp only: prod_eq_iff fst_conv snd_conv)
qed

section \<open>One item\<close>

lemma poll_loop_extends:
  assumes "poll_loop sr url tid i iv m a tr = Some y"
  shows "\<exists>xs. snd y = tr @ xs"
proof (rule poll_loop.raw_induct
    [where P = "\<lambda>sr url tid i iv m a tr y. \<exists>xs. snd y = tr @ xs", OF _ assms])
  fix f :: "(nat \<Rightarrow> string + jsval) \<Rightarrow> string \<Rightarrow> jsval \<Rightarrow> nat \<Rightarrow> jsnum \<Rightarrow> jsnum \<Rightarrow> nat
              \<Rightarrow> event list \<Rightarrow> ((node_error + jsval) \<times> event list) option"
    and sr url tid i iv m a tr y
  assume ih: "\<And>sr url tid i iv m a tr y. f sr url tid i iv m a tr = Some y \<Longrightarrow>
                \<exists>xs. snd y = tr @ xs"
    and body: "(if js_le (Fin (of_nat a)) m
      then (case sr a of
              Inl err \<Rightarrow> Some (Inl (ApiError err i), tr @ [Sent (StatusReq url tid)])
            | Inr statusPayload \<Rightarrow>
                if isTerminalFailure statusPayload
                then Some (Inl (TaskFailed tid (failureDetail statusPayload) i),
                           tr @ [Sent (StatusReq url tid)])
                else if isTerminalSuccess statusPayload
                then Some (Inr (unwrapFinalPayload statusPayload),
                           tr @ [Sent (StatusReq url tid)])
                else f sr url tid i iv m (a + 1) (tr @ [Sent (StatusReq url tid), Slept iv]))
      else Some (Inl (PollTimeout tid m i), tr)) = Some y"
  show "\<exists>xs. snd y = tr @ xs"
  proof (cases "f sr url tid i iv m (a + 1) (tr @ [Sent (StatusReq url tid), Slept iv]) = Some y")
    case True
    from ih [OF True] obtain xs where "snd y = (tr @ [Sent (StatusReq url tid), Slept iv]) @ xs"
      by blast
    then have "snd y = tr @ ([Sent (StatusReq url tid), Slept iv] @ xs)"
      by simp
    then show ?thesis ..
  next
    case False
    with body show ?thesis
      by (auto split: if_splits sum.splits)
  qed
qed

lemma process_item_submitted:
  assumes run: "process_item toNumber baseUrl ps nodeParams itemBinary audioBuffer createResp
                  statusResp i = Some (r, tr)"
    and sent: "tr \<noteq> []"
  shows "\<exists>bd url qs.
           itemBinary (p_binaryProperty ps) = Some bd \<and>
           endpointFor baseUrl (p_task ps) (fst (summarizeInputs ps))
             (snd (snd (summarizeInputs ps))) (fst (snd (summarizeInputs ps))) i = Inr (url, qs) \<and>
           submitted tr =
             Some (url, qs,
                   buildForm bd audioBuffer
                     (if p_task ps = ''transcribe'' then Some (p_model ps) else None))"
proof -
  from run sent obtain bd where bd: "itemBinary (p_binaryProperty ps) = Some bd"
    by (auto simp: process_item_def Let_def split: option.splits)
  from run sent bd obtain url qs where ep:
    "endpointFor baseUrl (p_task ps) (fst (summarizeInputs ps))
       (snd (snd (summarizeInputs ps))) (fst (snd (summarizeInputs ps))) i = Inr (url, qs)"
    by (auto simp: process_item_def Let_def split_beta split: sum.splits)
  let ?form = "buildForm bd audioBuffer
                 (if p_task ps = ''transcribe'' then Some (p_model ps) else None)"
  let ?start = "[Sent (CreateReq url qs ?form)]"
  have "\<exists>xs. tr = ?start @ xs"
  proof (cases createResp)
    case (Inl err)
    with run bd ep show ?thesis
      by (simp add: process_item_def Let_def split_beta)
  next
    case (Inr resp)
    show ?thesis
    proof (cases "truthy (extractTaskId resp)")
      case False
      with run bd ep Inr show ?thesis
        by (simp add: process_item_def Let_def split_beta)
    next
      case True
      with run bd ep Inr obtain y where
        y: "poll_loop statusResp (baseUrl @ ''/api/v1/transcribe/task_status/'')
              (extractTaskId resp) i (fst (pollingPolicy toNumber ps nodeParams))
              (snd (pollingPolicy toNumber ps nodeParams)) 1 ?start = Some y"
        and tr: "tr = snd y"
        by (auto simp: process_item_def Let_def split_beta split: option.splits sum.splits)
      from poll_loop_extends [OF y] tr show ?thesis
        by simp
    qed
  qed
  then obtain xs where "tr = ?start @ xs" ..
  then have "submitted tr = Some (url, qs, ?form)"
    by (simp add: submitted_def)
  with bd ep show ?thesis
    by blast
qed

lemma endpointFor_summarize_prompt:
  assumes "endpointFor baseUrl ''summarize'' (Some st) raw th i = Inr (url, qs)"
  shows "\<exists>q. qs = Some q \<and>
           qs_prompt q =
             (if st = ''meeting_summary'' then ''*''
              else if trim raw = [] then ''*'' else trim raw)"
  using assms
  by (auto simp: endpointFor_def Let_def str_or_def split: if_splits)

lemma summarizeInputs_summarize:
  "p_task ps = ''summarize'' \<Longrightarrow>
   summarizeInputs ps =
     (Some (p_summarizeTask ps), p_summarizeThinking ps,
      if p_summarizeTask ps = ''user_prompt'' then p_summarizePrompt ps else [])"
  by (simp add: summarizeInputs_def str_or_def)

text \<open>
  The prompt of a run that submitted, in terms of the prompt read for the item.
\<close>

lemma summarize_prompt_partial:
  "(p_task ps = ''summarize'' \<and>
    process_item toNumber baseUrl ps nodeParams itemBinary audioBuffer createResp statusResp i
      = Some (r, tr) \<and> tr \<noteq> [] \<longrightarrow>
      sent_prompt tr =
        Some (if p_summarizeTask ps = ''meeting_summary'' then ''*''
              else if trim (snd (snd (summarizeInputs ps))) = [] then ''*''
              else trim (snd (snd (summarizeInputs ps)))))
   \<and> (p_task ps = ''summarize'' \<and> p_summarizeTask ps = ''user_prompt'' \<longrightarrow>
        snd (snd (summarizeInputs ps)) = p_summarizePrompt ps)
   \<and> (p_task ps = ''summarize'' \<and> p_summarizeTask ps = ''user_prompt'' \<and>
      p_summarizePrompt ps = [] \<and>
      process_item toNumber baseUrl ps nodeParams itemBinary audioBuffer createResp statusResp i
        = Some (r, tr) \<and> tr \<noteq> [] \<longrightarrow>
        sent_prompt tr = Some ''*'')"
proof -
  have main: "sent_prompt tr =
        Some (if p_summarizeTask ps = ''meeting_summary'' then ''*''
              else if trim (snd (snd (summarizeInputs ps))) = [] then ''*''
              else trim (snd (snd (summarizeInputs ps))))"
    if t: "p_task ps = ''summarize''"
      and run: "process_item toNumber baseUrl ps nodeParams itemBinary audioBuffer createResp
                  statusResp i = Some (r, tr)"
      and sent: "tr \<noteq> []"
  proof -
    from process_item_submitted [OF run sent] obtain bd url qs where
      ep: "endpointFor baseUrl (p_task ps) (fst (summarizeInputs ps))
             (snd (snd (summarizeInputs ps))) (fst (snd (summarizeInputs ps))) i = Inr (url, qs)"
      and sub: "submitted tr =
             Some (url, qs,
                   buildForm bd audioBuffer
                     (if p_task ps = ''transcribe'' then Some (p_model ps) else None))"
      by blast
    from t have st: "fst (summarizeInputs ps) = Some (p_summarizeTask ps)"
      by (simp add: summarizeInputs_summarize)
    from ep t st have "endpointFor baseUrl ''summarize'' (Some (p_summarizeTask ps))
             (snd (snd (summarizeInputs ps))) (fst (snd (summarizeInputs ps))) i = Inr (url, qs)"
      by simp
    from endpointFor_summarize_prompt [OF this] obtain q where
      "qs = Some q" and "qs_prompt q =
             (if p_summarizeTask ps = ''meeting_summary'' then ''*''
              else if trim (snd (snd (summarizeInputs ps))) = [] then ''*''
              else trim (snd (snd (summarizeInputs ps))))"
      by blast
    with sub show ?thesis
      by (simp add: sent_prompt_def)
  qed
  have raw: "snd (snd (summarizeInputs ps)) = p_summarizePrompt ps"
    if "p_task ps = ''summarize''" and "p_summarizeTask ps = ''user_prompt''"
    using that by (simp add: summarizeInputs_summarize)
  have empty: "trim [] = []"
    by (simp add: trim_def)
  show ?thesis
  proof (intro conjI impI)
    assume "p_task ps = ''summarize'' \<and>
      process_item toNumber baseUrl ps nodeParams itemBinary audioBuffer createResp statusResp i
        = Some (r, tr) \<and> tr \<noteq> []"
    then show "sent_prompt tr =
        Some (if p_summarizeTask ps = ''meeting_summary'' then ''*''
              else if trim (snd (snd (summarizeInputs ps))) = [] then ''*''
              else trim (snd (snd (summarizeInputs ps))))"
      using main by blast
  next
    assume "p_task ps = ''summarize'' \<and> p_summarizeTask ps = ''user_prompt''"
    then show "snd (snd (summarizeInputs ps)) = p_summarizePrompt ps"
      using raw by blast
  next
    assume h: "p_task ps = ''summarize'' \<and> p_summarizeTask ps = ''user_prompt'' \<and>
      p_summarizePrompt ps = [] \<and>
      process_item toNumber baseUrl ps nodeParams itemBinary audioBuffer createResp statusResp i
        = Some (r, tr) \<and> tr \<noteq> []"
    then have "snd (snd (summarizeInputs ps)) = []"
      using raw by simp
    moreover from h have "p_summarizeTask ps \<noteq> ''meeting_summary''"
      by simp
    ultimately show "sent_prompt tr = Some ''*''"
      using main h empty by simp
  qed
qed

lemma normalizeOutput_source_file:
  "source_file (normalizeOutput task model bd fr) = fileName bd"
  by (simp add: normalizeOutput_def Let_def)

lemma process_item_output:
  assumes run: "process_item toNumber baseUrl ps nodeParams itemBinary audioBuffer createResp
                  statusResp i = Some (Inr out, tr)"
  shows "tr \<noteq> [] \<and>
         (\<exists>bd. itemBinary (p_binaryProperty ps) = Some bd \<and> source_file (json out) = fileName bd)"
proof -
  from run obtain bd where bd: "itemBinary (p_binaryProperty ps) = Some bd"
    by (auto simp: process_item_def Let_def split: option.splits)
  from run bd obtain fr where "json out =
      normalizeOutput (p_task ps)
        (if p_task ps = ''transcribe'' then Some (p_model ps) else None) bd fr"
    by (auto simp: process_item_def Let_def split_beta
        split: option.splits sum.splits if_splits)
  then have sf: "source_file (json out) = fileName bd"
    by (simp add: normalizeOutput_source_file)
  have "tr \<noteq> []"
  proof
    assume "tr = []"
    with run bd show False
      by (auto simp: process_item_def Let_def split_beta
          split: option.splits sum.splits if_splits dest: poll_loop_extends)
  qed
  with bd sf show ?thesis
    by blast
qed

text \<open>
  The upload name and the output field of a run, for an attachment without a file name.
\<close>

lemma missing_filename_partial:
  "itemBinary (p_binaryProperty ps) = Some bd \<and> fileName bd = None \<and>
   process_item toNumber baseUrl ps nodeParams itemBinary audioBuffer createResp statusResp i
     = Some (r, tr) \<longrightarrow>
     (tr \<noteq> [] \<longrightarrow> uploaded_name tr = Some ''audio'')
     \<and> (\<forall>out. r = Inr out \<longrightarrow>
          uploaded_name tr = Some ''audio'' \<and> source_file (json out) = None)"
proof (intro impI)
  assume h: "itemBinary (p_binaryProperty ps) = Some bd \<and> fileName bd = None \<and>
   process_item toNumber baseUrl ps nodeParams itemBinary audioBuffer createResp statusResp i
     = Some (r, tr)"
  then have run: "process_item toNumber baseUrl ps nodeParams itemBinary audioBuffer createResp
                    statusResp i = Some (r, tr)"
    by simp
  have up: "uploaded_name tr = Some ''audio''" if "tr \<noteq> []"
  proof -
    from process_item_submitted [OF run that] h obtain url qs where
      "submitted tr =
         Some (url, qs,
               buildForm bd audioBuffer
                 (if p_task ps = ''transcribe'' then Some (p_model ps) else None))"
      by auto
    with h show ?thesis
      by (simp add: uploaded_name_def buildForm_def opt_or_def)
  qed
  have out: "uploaded_name tr = Some ''audio'' \<and> source_file (json out) = None"
    if "r = Inr out" for out
  proof -
    from run that process_item_output [of toNumber baseUrl ps nodeParams itemBinary audioBuffer
        createResp statusResp i out tr] h
    have "tr \<noteq> []" and "source_file (json out) = None"
      by auto
    with up show ?thesis
      by simp
  qed
  from up out show "(tr \<noteq> [] \<longrightarrow> uploaded_name tr = Some ''audio'')
     \<and> (\<forall>out. r = Inr out \<longrightarrow>
          uploaded_name tr = Some ''audio'' \<and> source_file (json out) = None)"
    by blast
qed

lemma poll_loop_policy_returns:
  "\<exists>r tr'. poll_loop sr url tid i (fst (pollingPolicy toNumber ps nodeParams))
              (snd (pollingPolicy toNumber ps nodeParams)) 1 tr = Some (r, tr')"
  using poll_loop_returns [OF pollingPolicy_not_PosInf, of 1 toNumber ps nodeParams]
  by fastforce

lemma process_item_returns:
  "\<exists>r tr. process_item toNumber baseUrl ps nodeParams itemBinary audioBuffer createResp
             statusResp i = Some (r, tr)"
proof (cases "itemBinary (p_binaryProperty ps)")
  case None
  then show ?thesis
    by (simp add: process_item_def)
next
  case (Some bd)
  show ?thesis
  proof (cases "endpointFor baseUrl (p_task ps) (fst (summarizeInputs ps))
                  (snd (snd (summarizeInputs ps))) (fst (snd (summarizeInputs ps))) i")
    case (Inl err)
    with Some show ?thesis
      by (simp add: process_item_def Let_def split_beta)
  next
    case (Inr ep)
    show ?thesis
    proof (cases createResp)
      case (Inl err)
      with Some Inr show ?thesis
        by (simp add: process_item_def Let_def split_beta)
    next
      case resp: (Inr resp)
      show ?thesis
      proof (cases "truthy (extractTaskId resp)")
        case False
        with Some Inr resp show ?thesis
          by (simp add: process_item_def Let_def split_beta)
      next
        case True
        let ?start = "[Sent (CreateReq (fst ep) (snd ep)
                         (buildForm bd audioBuffer
                            (if p_task ps = ''transcribe'' then Some (p_model ps) else None)))]"
        from poll_loop_policy_returns
          [of statusResp "baseUrl @ ''/api/v1/transcribe/task_status/''" "extractTaskId resp" i
            toNumber ps nodeParams ?start]
        obtain r tr' where "poll_loop statusResp (baseUrl @ ''/api/v1/transcribe/task_status/'')
            (extractTaskId resp) i (fst (pollingPolicy toNumber ps nodeParams))
            (snd (pollingPolicy toNumber ps nodeParams)) 1 ?start = Some (r, tr')"
          by blast
        with Some Inr resp True show ?thesis
          by (cases r) (simp_all add: process_item_def Let_def split_beta)
      qed
    qed
  qed
qed

lemma submits_endpoint:
  assumes "submits ps"
  shows "\<exists>url qs. endpointFor baseUrl (p_task ps) (fst (summarizeInputs ps))
            (snd (snd (summarizeInputs ps))) (fst (snd (summarizeInputs ps))) i = Inr (url, qs)"
  using assms
  by (auto simp: submits_def endpointFor_def summarizeInputs_def Let_def)

lemma process_item_started:
  assumes run: "process_item toNumber baseUrl ps nodeParams itemBinary audioBuffer createResp
                  statusResp i = Some (r, tr)"
    and bd: "itemBinary (p_binaryProperty ps) = Some bd"
    and sub: "submits ps"
  shows "tr \<noteq> []"
proof -
  from submits_endpoint [OF sub, of baseUrl i] obtain url qs where ep:
    "endpointFor baseUrl (p_task ps) (fst (summarizeInputs ps))
       (snd (snd (summarizeInputs ps))) (fst (snd (summarizeInputs ps))) i = Inr (url, qs)"
    by blast
  show ?thesis
  proof
    assume "tr = []"
    with run bd ep show False
      by (auto simp: process_item_def Let_def split_beta
          split: option.splits sum.splits if_splits dest: poll_loop_extends)
  qed
qed

text \<open>
  A summarize item with the sub-task \<^verbatim>\<open>other\<close> and the prompt p: the prompt sent is the
  wildcard, where the specification's wording gives p.
\<close>

theorem summarize_prompt_literal_counterexample:
  "process_item (\<lambda>v. NaN) ''https://h''
     \<lparr>p_binaryProperty = ''data'', p_task = ''summarize'', p_model = [],
      p_summarizeTask = ''other'', p_summarizeThinking = False, p_summarizePrompt = ''p'',
      p_pollIntervalMs = Fin 500, p_maxPollAttempts = Fin 200,
      p_pollIntervalMsSummarize = Fin 20000, p_maxPollAttemptsSummarize = Fin 500\<rparr>
     Map.empty [''data'' \<mapsto> no_filename] [1, 2, 3] (Inr (JStr ''notes''))
     (\<lambda>a. Inl ''unused'') 0
   = Some (Inr \<lparr>json = \<lparr>o_task = ''summarize'', source_file = None, model_used = None,
                         transcription = None, diarization = None, sentiment = None,
                         summary = Some (JStr ''notes'')\<rparr>,
                binary = [''data'' \<mapsto> no_filename], pairedItem = 0\<rparr>,
           [Sent (CreateReq ''https://h/api/v1/ai_service/summarize_file''
                    (Some \<lparr>qs_task = ''other'', qs_prompt = ''*'', qs_thinking = False\<rparr>)
                    \<lparr>file_name = ''audio'', file_type = ''audio/wav'', file_bytes = [1, 2, 3],
                     form_model = None\<rparr>)])
   \<and> sent_prompt
       [Sent (CreateReq ''https://h/api/v1/ai_service/summarize_file''
                (Some \<lparr>qs_task = ''other'', qs_prompt = ''*'', qs_thinking = False\<rparr>)
                \<lparr>file_name = ''audio'', file_type = ''audio/wav'', file_bytes = [1, 2, 3],
                 form_model = None\<rparr>)] = Some ''*''
   \<and> claimed_prompt ''other'' ''p'' = ''p''
   \<and> ''*'' \<noteq> ''p''"
proof -
  have t: "trim ''p'' = ''p''" "trim [] = []"
    by code_simp+
  have run: "process_item (\<lambda>v. NaN) ''https://h''
     \<lparr>p_binaryProperty = ''data'', p_task = ''summarize'', p_model = [],
      p_summarizeTask = ''other'', p_summarizeThinking = False, p_summarizePrompt = ''p'',
      p_pollIntervalMs = Fin 500, p_maxPollAttempts = Fin 200,
      p_pollIntervalMsSummarize = Fin 20000, p_maxPollAttemptsSummarize = Fin 500\<rparr>
     Map.empty [''data'' \<mapsto> no_filename] [1, 2, 3] (Inr (JStr ''notes''))
     (\<lambda>a. Inl ''unused'') 0
   = Some (Inr \<lparr>json = \<lparr>o_task = ''summarize'', source_file = None, model_used = None,
                         transcription = None, diarization = None, sentiment = None,
                         summary = Some (JStr ''notes'')\<rparr>,
                binary = [''data'' \<mapsto> no_filename], pairedItem = 0\<rparr>,
           [Sent (CreateReq ''https://h/api/v1/ai_service/summarize_file''
                    (Some \<lparr>qs_task = ''other'', qs_prompt = ''*'', qs_thinking = False\<rparr>)
                    \<lparr>file_name = ''audio'', file_type = ''audio/wav'', file_bytes = [1, 2, 3],
                     form_model = None\<rparr>)])"
    by (simp add: process_item_def no_filename_def summarizeInputs_def
        pollingPolicy_def selectPolling_def endpointFor_def buildForm_def opt_or_def str_or_def
        extractTaskId_def normalizeOutput_def t)
  have sp: "sent_prompt
       [Sent (CreateReq ''https://h/api/v1/ai_service/summarize_file''
                (Some \<lparr>qs_task = ''other'', qs_prompt = ''*'', qs_thinking = False\<rparr>)
                \<lparr>file_name = ''audio'', file_type = ''audio/wav'', file_bytes = [1, 2, 3],
                 form_model = None\<rparr>)] = Some ''*''"
    by (simp add: sent_prompt_def submitted_def)
  have cl: "claimed_prompt ''other'' ''p'' = ''p''"
    by (simp add: claimed_prompt_def t)
  have ne: "''*'' \<noteq> ''p''"
    by simp
  from run sp cl ne show ?thesis
    by (intro conjI)
qed

text \<open>
  C8 (amended). Every summarize item with binary data and a non-empty sub-task is
  processed to an outcome, and the prompt in the query string of its create request is:
  under the sub-task \<^verbatim>\<open>user_prompt\<close> the \<^verbatim>\<open>summarizePrompt\<close> parameter trimmed, or the
  wildcard \<^verbatim>\<open>*\<close> when that trims to the empty string; under every other sub-task, so
  under \<^verbatim>\<open>meeting_summary\<close>, the wildcard.  In particular \<^verbatim>\<open>user_prompt\<close> with an empty
  prompt sends the wildcard.
\<close>

theorem summarize_prompt_by_subtask:
  "p_task ps = ''summarize'' \<and> itemBinary (p_binaryProperty ps) \<noteq> None \<and>
   p_summarizeTask ps \<noteq> [] \<longrightarrow>
     (\<exists>r tr. process_item toNumber baseUrl ps nodeParams itemBinary audioBuffer createResp
               statusResp i = Some (r, tr) \<and>
             sent_prompt tr =
               Some (if p_summarizeTask ps = ''user_prompt''
                     then (if trim (p_summarizePrompt ps) = [] then ''*''
                           else trim (p_summarizePrompt ps))
                     else ''*''))
     \<and> (p_summarizeTask ps = ''meeting_summary'' \<longrightarrow>
          (\<exists>r tr. process_item toNumber baseUrl ps nodeParams itemBinary audioBuffer createResp
                    statusResp i = Some (r, tr) \<and> sent_prompt tr = Some ''*''))
     \<and> (p_summarizeTask ps = ''user_prompt'' \<and> p_summarizePrompt ps = [] \<longrightarrow>
          (\<exists>r tr. process_item toNumber baseUrl ps nodeParams itemBinary audioBuffer createResp
                    statusResp i = Some (r, tr) \<and> sent_prompt tr = Some ''*''))"
proof (intro impI)
  assume h: "p_task ps = ''summarize'' \<and> itemBinary (p_binaryProperty ps) \<noteq> None \<and>
             p_summarizeTask ps \<noteq> []"
  then have sub: "submits ps"
    by (simp add: submits_def)
  from h obtain bd where bd: "itemBinary (p_binaryProperty ps) = Some bd"
    by blast
  from process_item_returns obtain r tr where
    run: "process_item toNumber baseUrl ps nodeParams itemBinary audioBuffer createResp
            statusResp i = Some (r, tr)"
    by blast
  from process_item_started [OF run bd sub] have ne: "tr \<noteq> []" .
  have raw: "snd (snd (summarizeInputs ps)) =
             (if p_summarizeTask ps = ''user_prompt'' then p_summarizePrompt ps else [])"
    using h by (simp add: summarizeInputs_summarize)
  have empty: "trim [] = []"
    by (simp add: trim_def)
  from summarize_prompt_partial [THEN conjunct1, THEN mp, OF conjI [OF _ conjI [OF run ne]]] h
  have "sent_prompt tr =
        Some (if p_summarizeTask ps = ''meeting_summary'' then ''*''
              else if trim (snd (snd (summarizeInputs ps))) = [] then ''*''
              else trim (snd (snd (summarizeInputs ps))))"
    by blast
  then have main: "sent_prompt tr =
               Some (if p_summarizeTask ps = ''user_prompt''
                     then (if trim (p_summarizePrompt ps) = [] then ''*''
                           else trim (p_summarizePrompt ps))
                     else ''*'')"
    by (simp add: raw empty)
  show "(\<exists>r tr. process_item toNumber baseUrl ps nodeParams itemBinary audioBuffer createResp
               statusResp i = Some (r, tr) \<and>
             sent_prompt tr =
               Some (if p_summarizeTask ps = ''user_prompt''
                     then (if trim (p_summarizePrompt ps) = [] then ''*''
                           else trim (p_summarizePrompt ps))
                     else ''*''))
     \<and> (p_summarizeTask ps = ''meeting_summary'' \<longrightarrow>
          (\<exists>r tr. process_item toNumber baseUrl ps nodeParams itemBinary audioBuffer createResp
                    statusResp i = Some (r, tr) \<and> sent_prompt tr = Some ''*''))
     \<and> (p_summarizeTask ps = ''user_prompt'' \<and> p_summarizePrompt ps = [] \<longrightarrow>
          (\<exists>r tr. process_item toNumber baseUrl ps nodeParams itemBinary audioBuffer createResp
                    statusResp i = Some (r, tr) \<and> sent_prompt tr = Some ''*''))"
  proof (intro conjI impI)
    from run main show "\<exists>r tr. process_item toNumber baseUrl ps nodeParams itemBinary
        audioBuffer createResp statusResp i = Some (r, tr) \<and>
             sent_prompt tr =
               Some (if p_summarizeTask ps = ''user_prompt''
                     then (if trim (p_summarizePrompt ps) = [] then ''*''
                           else trim (p_summarizePrompt ps))
                     else ''*'')"
      by blast
  next
    assume "p_summarizeTask ps = ''meeting_summary''"
    with main have "sent_prompt tr = Some ''*''"
      by simp
    with run show "\<exists>r tr. process_item toNumber baseUrl ps nodeParams itemBinary
        audioBuffer createResp statusResp i = Some (r, tr) \<and> sent_prompt tr = Some ''*''"
      by blast
  next
    assume "p_summarizeTask ps = ''user_prompt'' \<and> p_summarizePrompt ps = []"
    with main empty have "sent_prompt tr = Some ''*''"
      by simp
    with run show "\<exists>r tr. process_item toNumber baseUrl ps nodeParams itemBinary
        audioBuffer createResp statusResp i = Some (r, tr) \<and> sent_prompt tr = Some ''*''"
      by blast
  qed
qed

theorem summarize_prompt_by_subtask_witness:
  "process_item (\<lambda>v. NaN) ''https://h'' (example_params ''summarize'') Map.empty
     [''data'' \<mapsto> no_filename] [1, 2, 3] (Inr (JStr ''notes'')) (\<lambda>a. Inl ''unused'') 0
   = Some (Inr \<lparr>json = \<lparr>o_task = ''summarize'', source_file = None, model_used = None,
                         transcription = None, diarization = None, sentiment = None,
                         summary = Some (JStr ''notes'')\<rparr>,
                binary = [''data'' \<mapsto> no_filename], pairedItem = 0\<rparr>,
           [Sent (CreateReq ''https://h/api/v1/ai_service/summarize_file''
                    (Some \<lparr>qs_task = ''user_prompt'', qs_prompt = ''*'', qs_thinking = False\<rparr>)
                    \<lparr>file_name = ''audio'', file_type = ''audio/wav'', file_bytes = [1, 2, 3],
                     form_model = None\<rparr>)])
   \<and> sent_prompt
       [Sent (CreateReq ''https://h/api/v1/ai_service/summarize_file''
                (Some \<lparr>qs_task = ''user_prompt'', qs_prompt = ''*'', qs_thinking = False\<rparr>)
                \<lparr>file_name = ''audio'', file_type = ''audio/wav'', file_bytes = [1, 2, 3],
                 form_model = None\<rparr>)] = Some ''*''"
proof -
  let ?ps = "example_params ''summarize''"
  let ?tr = "[Sent (CreateReq ''https://h/api/v1/ai_service/summarize_file''
                (Some \<lparr>qs_task = ''user_prompt'', qs_prompt = ''*'', qs_thinking = False\<rparr>)
                \<lparr>file_name = ''audio'', file_type = ''audio/wav'', file_bytes = [1, 2, 3],
                 form_model = None\<rparr>)]"
  have blank: "trim ''  '' = []"
    by code_simp
  have run: "process_item (\<lambda>v. NaN) ''https://h'' ?ps Map.empty
     [''data'' \<mapsto> no_filename] [1, 2, 3] (Inr (JStr ''notes'')) (\<lambda>a. Inl ''unused'') 0
   = Some (Inr \<lparr>json = \<lparr>o_task = ''summarize'', source_file = None, model_used = None,
                         transcription = None, diarization = None, sentiment = None,
                         summary = Some (JStr ''notes'')\<rparr>,
                binary = [''data'' \<mapsto> no_filename], pairedItem = 0\<rparr>, ?tr)"
    by (simp add: process_item_def example_params_def no_filename_def summarizeInputs_def
        pollingPolicy_def selectPolling_def endpointFor_def buildForm_def opt_or_def str_or_def
        extractTaskId_def normalizeOutput_def blank)
  have h: "p_task ?ps = ''summarize'' \<and>
           [''data'' \<mapsto> no_filename] (p_binaryProperty ?ps) \<noteq> None \<and>
           p_summarizeTask ?ps \<noteq> []"
    by (simp add: example_params_def)
  have up: "p_summarizeTask ?ps = ''user_prompt''"
    by (simp add: example_params_def)
  have pr: "trim (p_summarizePrompt ?ps) = []"
    by (simp add: example_params_def blank)
  from summarize_prompt_by_subtask
      [where ps = ?ps and itemBinary = "[''data'' \<mapsto> no_filename]"
         and toNumber = "\<lambda>v. NaN" and baseUrl = "''https://h''" and nodeParams = Map.empty
         and audioBuffer = "[1, 2, 3]" and createResp = "Inr (JStr ''notes'')"
         and statusResp = "\<lambda>a. Inl ''unused''" and i = 0,
       THEN mp, OF h, THEN conjunct1]
  obtain r tr where run': "process_item (\<lambda>v. NaN) ''https://h'' ?ps Map.empty
     [''data'' \<mapsto> no_filename] [1, 2, 3] (Inr (JStr ''notes'')) (\<lambda>a. Inl ''unused'') 0
       = Some (r, tr)"
    and sp: "sent_prompt tr =
               Some (if p_summarizeTask ?ps = ''user_prompt''
                     then (if trim (p_summarizePrompt ?ps) = [] then ''*''
                           else trim (p_summarizePrompt ?ps))
                     else ''*'')"
    by blast
  from run run' have "tr = ?tr"
    by (simp only: option.inject prod.inject)
  with sp have "sent_prompt ?tr = Some ''*''"
    by (simp only: up pr if_True simp_thms)
  with run show ?thesis
    by (rule conjI)
qed

lemma process_item_no_polling:
  assumes bd: "itemBinary (p_binaryProperty ps) = Some bd"
    and sub: "submits ps"
    and resp: "createResp = Inr resp" "\<not> truthy (extractTaskId resp)"
    and run: "process_item toNumber baseUrl ps nodeParams itemBinary audioBuffer createResp
                statusResp i = Some (r, tr)"
  shows "\<exists>out. r = Inr out"
proof -
  from submits_endpoint [OF sub, of baseUrl i] obtain url qs where ep:
    "endpointFor baseUrl (p_task ps) (fst (summarizeInputs ps))
       (snd (snd (summarizeInputs ps))) (fst (snd (summarizeInputs ps))) i = Inr (url, qs)"
    by blast
  let ?model = "if p_task ps = ''transcribe'' then Some (p_model ps) else None"
  have "process_item toNumber baseUrl ps nodeParams itemBinary audioBuffer createResp
          statusResp i =
        Some (Inr \<lparr>json = normalizeOutput (p_task ps) ?model bd resp,
                   binary = itemBinary, pairedItem = i\<rparr>,
              [Sent (CreateReq url qs (buildForm bd audioBuffer ?model))])"
    by (simp add: process_item_def Let_def split_beta bd ep resp)
  with run have "r = Inr \<lparr>json = normalizeOutput (p_task ps) ?model bd resp,
                          binary = itemBinary, pairedItem = i\<rparr>"
    by simp
  then show ?thesis ..
qed

text \<open>
  C10. Every item whose binary attachment has no file name is processed to an outcome.
  Whenever the file is submitted (always, once the task is valid) it is uploaded under
  the default name \<^verbatim>\<open>audio\<close>, and whenever an output record is produced (for one, when
  the create response carries no task identifier) its \<^verbatim>\<open>source_file\<close> is undefined: the
  default is applied to the upload only.
\<close>

theorem missing_filename_upload_and_output:
  "itemBinary (p_binaryProperty ps) = Some bd \<and> fileName bd = None \<longrightarrow>
     (\<exists>r tr. process_item toNumber baseUrl ps nodeParams itemBinary audioBuffer createResp
               statusResp i = Some (r, tr) \<and>
             (tr \<noteq> [] \<longrightarrow> uploaded_name tr = Some ''audio'') \<and>
             (submits ps \<longrightarrow> uploaded_name tr = Some ''audio'') \<and>
             (\<forall>out. r = Inr out \<longrightarrow>
                uploaded_name tr = Some ''audio'' \<and> source_file (json out) = None) \<and>
             (submits ps \<and> (\<exists>resp. createResp = Inr resp \<and> \<not> truthy (extractTaskId resp))
                \<longrightarrow> (\<exists>out. r = Inr out)))"
proof (intro impI)
  assume h: "itemBinary (p_binaryProperty ps) = Some bd \<and> fileName bd = None"
  then have bd: "itemBinary (p_binaryProperty ps) = Some bd" and nf: "fileName bd = None"
    by simp_all
  from process_item_returns obtain r tr where
    run: "process_item toNumber baseUrl ps nodeParams itemBinary audioBuffer createResp
            statusResp i = Some (r, tr)"
    by blast
  note old = missing_filename_partial [THEN mp, OF conjI [OF bd conjI [OF nf run]]]
  have a: "tr \<noteq> [] \<longrightarrow> uploaded_name tr = Some ''audio''"
    using old by (rule conjunct1)
  have b: "submits ps \<longrightarrow> uploaded_name tr = Some ''audio''"
  proof
    assume "submits ps"
    then have "tr \<noteq> []"
      by (rule process_item_started [OF run bd])
    with a show "uploaded_name tr = Some ''audio''"
      by (rule mp)
  qed
  have c: "\<forall>out. r = Inr out \<longrightarrow>
             uploaded_name tr = Some ''audio'' \<and> source_file (json out) = None"
    using old by (rule conjunct2)
  have d: "submits ps \<and> (\<exists>resp. createResp = Inr resp \<and> \<not> truthy (extractTaskId resp))
             \<longrightarrow> (\<exists>out. r = Inr out)"
  proof
    assume s: "submits ps \<and> (\<exists>resp. createResp = Inr resp \<and> \<not> truthy (extractTaskId resp))"
    then obtain resp where resp: "createResp = Inr resp" "\<not> truthy (extractTaskId resp)"
      by blast
    from s have sub: "submits ps" ..
    show "\<exists>out. r = Inr out"
      by (rule process_item_no_polling [OF bd sub resp run])
  qed
  let ?P = "\<lambda>r tr. process_item toNumber baseUrl ps nodeParams itemBinary audioBuffer
               createResp statusResp i = Some (r, tr) \<and>
             (tr \<noteq> [] \<longrightarrow> uploaded_name tr = Some ''audio'') \<and>
             (submits ps \<longrightarrow> uploaded_name tr = Some ''audio'') \<and>
             (\<forall>out. r = Inr out \<longrightarrow>
                uploaded_name tr = Some ''audio'' \<and> source_file (json out) = None) \<and>
             (submits ps \<and> (\<exists>resp. createResp = Inr resp \<and> \<not> truthy (extractTaskId resp))
                \<longrightarrow> (\<exists>out. r = Inr out))"
  from run a b c d have "?P r tr"
    by (intro conjI)
  then have "\<exists>tr. ?P r tr"
    by (rule exI [of "?P r" tr])
  then show "\<exists>r tr. ?P r tr"
    by (rule exI [of "\<lambda>r. \<exists>tr. ?P r tr" r])
qed

theorem missing_filename_upload_and_output_witness:
  "process_item (\<lambda>v. NaN) ''https://h'' (example_params ''transcribe'') Map.empty
     [''data'' \<mapsto> no_filename] [1, 2, 3] (Inr (JObj [(''task_id'', JStr ''abc'')]))
     (\<lambda>a. if a = 1 then Inr (JObj [(''status'', JStr ''processing'')])
          else Inr (JObj [(''status'', JStr ''completed''),
                          (''result'', JObj [(''text'', JStr ''hello'')])])) 0
   = Some (Inr \<lparr>json = \<lparr>o_task = ''transcribe'', source_file = None,
                         model_used = Some ''palatine_small'',
                         transcription = Some (JStr ''hello''), diarization = None,
                         sentiment = None, summary = None\<rparr>,
                binary = [''data'' \<mapsto> no_filename], pairedItem = 0\<rparr>,
           [Sent (CreateReq ''https://h/api/v1/transcribe/do_transcribe'' None
                    \<lparr>file_name = ''audio'', file_type = ''audio/wav'', file_bytes = [1, 2, 3],
                     form_model = Some ''palatine_small''\<rparr>),
            Sent (StatusReq ''https://h/api/v1/transcribe/task_status/'' (JStr ''abc'')),
            Slept (Fin 500),
            Sent (StatusReq ''https://h/api/v1/transcribe/task_status/'' (JStr ''abc''))])
   \<and> uploaded_name
       [Sent (CreateReq ''https://h/api/v1/transcribe/do_transcribe'' None
                \<lparr>file_name = ''audio'', file_type = ''audio/wav'', file_bytes = [1, 2, 3],
                 form_model = Some ''palatine_small''\<rparr>),
        Sent (StatusReq ''https://h/api/v1/transcribe/task_status/'' (JStr ''abc'')),
        Slept (Fin 500),
        Sent (StatusReq ''https://h/api/v1/transcribe/task_status/'' (JStr ''abc''))]
     = Some ''audio''"
proof -
  let ?ps = "example_params ''transcribe''"
  let ?p1 = "JObj [(''status'', JStr ''processing'')]"
  let ?p2 = "JObj [(''status'', JStr ''completed''), (''result'', JObj [(''text'', JStr ''hello'')])]"
  let ?sr = "\<lambda>a::nat. if a = 1 then (Inr ?p1 :: string + jsval) else Inr ?p2"
  let ?url = "''https://h/api/v1/transcribe/task_status/''"
  let ?start = "[Sent (CreateReq ''https://h/api/v1/transcribe/do_transcribe'' None
                \<lparr>file_name = ''audio'', file_type = ''audio/wav'', file_bytes = [1, 2, 3],
                 form_model = Some ''palatine_small''\<rparr>)]"
  let ?tr = "?start @ [Sent (StatusReq ?url (JStr ''abc'')), Slept (Fin 500),
                     Sent (StatusReq ?url (JStr ''abc''))]"
  let ?out = "\<lparr>json = \<lparr>o_task = ''transcribe'', source_file = None,
                         model_used = Some ''palatine_small'',
                         transcription = Some (JStr ''hello''), diarization = None,
                         sentiment = None, summary = None\<rparr>,
                binary = [''data'' \<mapsto> no_filename], pairedItem = 0\<rparr>"
  have c1: "\<not> isTerminalFailure ?p1" "\<not> isTerminalSuccess ?p1"
    by code_simp+
  have c2: "\<not> isTerminalFailure ?p2" "isTerminalSuccess ?p2"
    by code_simp+
  have u: "unwrapFinalPayload ?p2 = JObj [(''text'', JStr ''hello'')]"
    by code_simp
  have poll: "poll_loop ?sr ?url (JStr ''abc'') 0 (Fin 500) (Fin 200) 1 ?start =
              Some (Inr (JObj [(''text'', JStr ''hello'')]), ?tr)"
    apply (subst poll_loop.simps)
    apply (simp add: c1)
    apply (subst poll_loop.simps)
    apply (simp add: c2 u)
    done
  have fields: "p_binaryProperty ?ps = ''data''" "p_task ?ps = ''transcribe''"
    "p_model ?ps = ''palatine_small''"
    by (simp_all add: example_params_def)
  have pol: "pollingPolicy (\<lambda>v. NaN) ?ps Map.empty = (Fin 500, Fin 200)"
    by (simp add: pollingPolicy_def selectPolling_def example_params_def Math_min_def
        Math_max_def)
  have si: "summarizeInputs ?ps = (None, False, [])"
    by (simp add: summarizeInputs_def fields)
  have ep: "endpointFor ''https://h'' ''transcribe'' None [] False 0 =
            Inr (''https://h/api/v1/transcribe/do_transcribe'', None)"
    by (simp add: endpointFor_def)
  have form: "buildForm no_filename [1, 2, 3] (Some ''palatine_small'') =
              \<lparr>file_name = ''audio'', file_type = ''audio/wav'', file_bytes = [1, 2, 3],
               form_model = Some ''palatine_small''\<rparr>"
    by (simp add: buildForm_def opt_or_def str_or_def no_filename_def)
  have tid: "extractTaskId (JObj [(''task_id'', JStr ''abc'')]) = JStr ''abc''"
    by (simp add: extractTaskId_def js_or_def)
  have norm: "normalizeOutput ''transcribe'' (Some ''palatine_small'') no_filename
                (JObj [(''text'', JStr ''hello'')]) =
              \<lparr>o_task = ''transcribe'', source_file = None,
               model_used = Some ''palatine_small'',
               transcription = Some (JStr ''hello''), diarization = None,
               sentiment = None, summary = None\<rparr>"
    by (simp add: normalizeOutput_def js_or_def no_filename_def)
  have run: "process_item (\<lambda>v. NaN) ''https://h'' ?ps Map.empty
     [''data'' \<mapsto> no_filename] [1, 2, 3] (Inr (JObj [(''task_id'', JStr ''abc'')])) ?sr 0
     = Some (Inr ?out, ?tr)"
    by (simp add: process_item_def Let_def fields pol si ep form tid norm poll
        del: One_nat_def)
  have h: "[''data'' \<mapsto> no_filename] (p_binaryProperty ?ps) = Some no_filename \<and>
           fileName no_filename = None"
    by (simp add: fields no_filename_def)
  from missing_filename_upload_and_output
      [where ps = ?ps and itemBinary = "[''data'' \<mapsto> no_filename]" and bd = no_filename
         and toNumber = "\<lambda>v. NaN" and baseUrl = "''https://h''" and nodeParams = Map.empty
         and audioBuffer = "[1, 2, 3]"
         and createResp = "Inr (JObj [(''task_id'', JStr ''abc'')])"
         and statusResp = ?sr and i = 0,
       THEN mp, OF h]
  obtain r tr where run': "process_item (\<lambda>v. NaN) ''https://h'' ?ps Map.empty
     [''data'' \<mapsto> no_filename] [1, 2, 3] (Inr (JObj [(''task_id'', JStr ''abc'')])) ?sr 0
       = Some (r, tr)"
    and out: "\<forall>out. r = Inr out \<longrightarrow>
                uploaded_name tr = Some ''audio'' \<and> source_file (json out) = None"
    by blast
  from run run' have eq: "r = Inr ?out" "tr = ?tr"
    by (simp_all only: option.inject prod.inject)
  from out eq(1) have "uploaded_name tr = Some ''audio''"
    by blast
  then have "uploaded_name ?tr = Some ''audio''"
    by (simp only: eq(2))
  with run show ?thesis
    by simp
qed

end
